theory Spec2Isabelle
  imports Complex_Main "HOL-Library.Word" "HOL-Library.Sublist" "HOL-Library.Log_Nat"
begin

section \<open>JavaScript values\<close>

text \<open>
  The program is TypeScript running on a JavaScript engine. A JavaScript string is a
  sequence of UTF-16 code units: \<open>length\<close>, \<open>substring\<close> and the regular expression of the
  service all count code units. A source literal is embedded with \<open>str\<close>.
\<close>

type_synonym code_unit = "16 word"
type_synonym jsstring = "code_unit list"

abbreviation cu :: "char \<Rightarrow> code_unit" where
  "cu c \<equiv> of_char c"

definition str :: "string \<Rightarrow> jsstring" where
  "str s = map cu s"

text \<open>
  What \<open>JSON.parse\<close> returns (the service types it \<open>any\<close>). A number carries the
  mathematical value of its literal; the engine's rounding of it to a binary64 double is
  applied where a number is tested (\<open>number_is_zero\<close>, \<open>number_gt\<close>, \<open>number_eq_4\<close>).
  An object keeps its members in source order, repeated keys included: a lookup takes the
  last one, as the engine's overwriting does.
\<close>

datatype json =
    JNull
  | JBool bool
  | JNumber real
  | JString jsstring
  | JArray "json list"
  | JObject "(jsstring \<times> json) list"

text \<open>What a \<open>throw\<close> carries: \<open>new Error(message)\<close>, or an error of the engine.\<close>

datatype js_error = Error jsstring | TypeError | SyntaxError

text \<open>\<open>Number.prototype.toString\<close> and template interpolation of a non-negative integer.\<close>

function toString :: "nat \<Rightarrow> jsstring" where
  "toString n =
     (if n < 10 then [of_nat (48 + n)]
      else toString (n div 10) @ [of_nat (48 + n mod 10)])"
  by pat_completeness auto
termination
  by (relation "measure (\<lambda>n. n)") auto

declare toString.simps [simp del]

section \<open>JSON.parse\<close>

text \<open>
  The engine's \<open>JSON.parse\<close>, following the JSON grammar (ECMA-404): a lexer from code
  units to tokens and a push-down recogniser from tokens to a value. Any input outside
  the grammar is a \<open>SyntaxError\<close>.
\<close>

datatype token =
    TLBrace | TRBrace | TLBracket | TRBracket | TColon | TComma
  | TString jsstring | TNumber real | TTrue | TFalse | TNull

definition is_json_ws :: "code_unit \<Rightarrow> bool" where
  "is_json_ws c \<longleftrightarrow> c = 0x20 \<or> c = 0x09 \<or> c = 0x0A \<or> c = 0x0D"

definition is_digit :: "code_unit \<Rightarrow> bool" where
  "is_digit c \<longleftrightarrow> 0x30 \<le> c \<and> c \<le> 0x39"

definition digit_val :: "code_unit \<Rightarrow> nat" where
  "digit_val c = unat c - 48"

definition hex_val :: "code_unit \<Rightarrow> nat option" where
  "hex_val c =
     (if 0x30 \<le> c \<and> c \<le> 0x39 then Some (unat c - 48)
      else if 0x61 \<le> c \<and> c \<le> 0x66 then Some (unat c - 87)
      else if 0x41 \<le> c \<and> c \<le> 0x46 then Some (unat c - 55)
      else None)"

definition nat_of_digits :: "jsstring \<Rightarrow> nat" where
  "nat_of_digits ds = foldl (\<lambda>a c. 10 * a + digit_val c) 0 ds"

text \<open>The characters of a string literal after its opening quote, up to the closing one.\<close>

fun lex_string :: "jsstring \<Rightarrow> jsstring \<Rightarrow> (jsstring \<times> jsstring) option" where
  "lex_string acc [] = None"
| "lex_string acc (c # cs) =
     (if c = cu CHR 0x22 then Some (acc, cs)
      else if c = cu CHR 0x5C then
        (case cs of
           [] \<Rightarrow> None
         | e # cs' \<Rightarrow>
             if e = cu CHR 0x22 \<or> e = cu CHR 0x5C \<or> e = cu CHR ''/'' then lex_string (acc @ [e]) cs'
             else if e = cu CHR ''b'' then lex_string (acc @ [0x08]) cs'
             else if e = cu CHR ''f'' then lex_string (acc @ [0x0C]) cs'
             else if e = cu CHR ''n'' then lex_string (acc @ [0x0A]) cs'
             else if e = cu CHR ''r'' then lex_string (acc @ [0x0D]) cs'
             else if e = cu CHR ''t'' then lex_string (acc @ [0x09]) cs'
             else if e = cu CHR ''u'' then
               (case cs' of
                  h1 # h2 # h3 # h4 # cs'' \<Rightarrow>
                    (case (hex_val h1, hex_val h2, hex_val h3, hex_val h4) of
                       (Some a, Some b, Some c, Some d) \<Rightarrow>
                         lex_string (acc @ [of_nat (4096 * a + 256 * b + 16 * c + d)]) cs''
                     | _ \<Rightarrow> None)
                | _ \<Rightarrow> None)
             else None)
      else if c < 0x20 then None
      else lex_string (acc @ [c]) cs)"

text \<open>
  A number literal: \<open>-? (0 | [1-9][0-9]*) (. [0-9]+)? ([eE] [+-]? [0-9]+)?\<close>, with its
  value and the rest of the input.
\<close>

definition lex_fraction :: "jsstring \<Rightarrow> (jsstring \<times> jsstring) option" where
  "lex_fraction s =
     (case s of
        c # r \<Rightarrow>
          if c = cu CHR ''.'' then
            (if takeWhile is_digit r = [] then None
             else Some (takeWhile is_digit r, dropWhile is_digit r))
          else Some ([], s)
      | [] \<Rightarrow> Some ([], s))"

definition lex_exponent :: "jsstring \<Rightarrow> (int \<times> jsstring) option" where
  "lex_exponent s =
     (case s of
        c # r \<Rightarrow>
          if c = cu CHR ''e'' \<or> c = cu CHR ''E'' then
            (let neg = (case r of d # _ \<Rightarrow> d = cu CHR ''-'' | [] \<Rightarrow> False);
                 signed = (case r of d # _ \<Rightarrow> d = cu CHR ''-'' \<or> d = cu CHR ''+'' | [] \<Rightarrow> False);
                 r' = (if signed then tl r else r);
                 ds = takeWhile is_digit r'
             in if ds = [] then None
                else Some ((if neg then - int (nat_of_digits ds) else int (nat_of_digits ds)),
                           dropWhile is_digit r'))
          else Some (0, s)
      | [] \<Rightarrow> Some (0, s))"

definition decimal_value :: "bool \<Rightarrow> jsstring \<Rightarrow> jsstring \<Rightarrow> int \<Rightarrow> real" where
  "decimal_value neg ds fs e =
     (let m = real (nat_of_digits (ds @ fs)); x = e - int (length fs);
          v = (if 0 \<le> x then m * 10 ^ nat x else m / 10 ^ nat (- x))
      in if neg then - v else v)"

definition lex_number :: "jsstring \<Rightarrow> (real \<times> jsstring) option" where
  "lex_number s =
     (let neg = (case s of c # _ \<Rightarrow> c = cu CHR ''-'' | [] \<Rightarrow> False);
          s1 = (if neg then tl s else s);
          ds = takeWhile is_digit s1
      in if ds = [] \<or> (1 < length ds \<and> hd ds = cu CHR ''0'') then None
         else
           (case lex_fraction (dropWhile is_digit s1) of
              None \<Rightarrow> None
            | Some (fs, s2) \<Rightarrow>
                (case lex_exponent s2 of
                   None \<Rightarrow> None
                 | Some (e, s3) \<Rightarrow> Some (decimal_value neg ds fs e, s3))))"

lemma lex_string_length: "lex_string acc cs = Some (s, rest) \<Longrightarrow> length rest < Suc (length cs)"
proof (induction acc cs rule: lex_string.induct)
  case (1 acc)
  then show ?case by simp
next
  case (2 acc c cs)
  then show ?case
    by (auto split: if_splits list.splits option.splits prod.splits simp: less_Suc_eq_le)
      (force dest: Suc_leD)+
qed

lemma lex_fraction_length: "lex_fraction s = Some (fs, r) \<Longrightarrow> length r \<le> length s"
  by (auto simp: lex_fraction_def split: list.splits if_splits
      intro: le_SucI length_dropWhile_le)

lemma lex_exponent_length: "lex_exponent s = Some (e, r) \<Longrightarrow> length r \<le> length s"
  by (auto simp: lex_exponent_def Let_def split: list.splits if_splits
      intro: le_SucI length_dropWhile_le order_trans [OF length_dropWhile_le])

lemma dropWhile_shorter: "takeWhile P xs \<noteq> [] \<Longrightarrow> length (dropWhile P xs) < length xs"
  by (induction xs) (auto simp: less_Suc_eq_le length_dropWhile_le split: if_splits)

lemma lex_number_length:
  assumes "lex_number s = Some (q, rest)"
  shows "length rest < length s"
proof -
  define s1 where "s1 = (if (case s of c # _ \<Rightarrow> c = cu CHR ''-'' | [] \<Rightarrow> False) then tl s else s)"
  have s1: "length s1 \<le> length s"
    by (simp add: s1_def)
  from assms have ne: "takeWhile is_digit s1 \<noteq> []"
    by (auto simp: lex_number_def Let_def s1_def split: if_splits)
  from assms obtain fs s2 e where
    f: "lex_fraction (dropWhile is_digit s1) = Some (fs, s2)" and x: "lex_exponent s2 = Some (e, rest)"
    by (auto simp: lex_number_def Let_def s1_def split: if_splits option.splits)
  have "length rest \<le> length s2" using x by (rule lex_exponent_length)
  also have "\<dots> \<le> length (dropWhile is_digit s1)" using f by (rule lex_fraction_length)
  also have "\<dots> < length s1" using ne by (rule dropWhile_shorter)
  finally show ?thesis using s1 by simp
qed

function lex :: "jsstring \<Rightarrow> token list option" where
  "lex [] = Some []"
| "lex (c # cs) =
     (if is_json_ws c then lex cs
      else if c = cu CHR ''{'' then map_option (Cons TLBrace) (lex cs)
      else if c = cu CHR ''}'' then map_option (Cons TRBrace) (lex cs)
      else if c = cu CHR ''['' then map_option (Cons TLBracket) (lex cs)
      else if c = cu CHR '']'' then map_option (Cons TRBracket) (lex cs)
      else if c = cu CHR '':'' then map_option (Cons TColon) (lex cs)
      else if c = cu CHR '','' then map_option (Cons TComma) (lex cs)
      else if c = cu CHR 0x22 then
        (case lex_string [] cs of
           None \<Rightarrow> None
         | Some (s, rest) \<Rightarrow> map_option (Cons (TString s)) (lex rest))
      else if c = cu CHR ''-'' \<or> is_digit c then
        (case lex_number (c # cs) of
           None \<Rightarrow> None
         | Some (q, rest) \<Rightarrow> map_option (Cons (TNumber q)) (lex rest))
      else if prefix (str ''true'') (c # cs) then map_option (Cons TTrue) (lex (drop 3 cs))
      else if prefix (str ''false'') (c # cs) then map_option (Cons TFalse) (lex (drop 4 cs))
      else if prefix (str ''null'') (c # cs) then map_option (Cons TNull) (lex (drop 3 cs))
      else None)"
  by pat_completeness auto
termination
proof (relation "measure length", goal_cases)
  case 1
  show ?case by simp
next
  case (9 c cs x2 s rest)
  then show ?case using lex_string_length [of "[]" cs s rest] by simp
next
  case (10 c cs x2 q rest)
  then show ?case using lex_number_length [of "c # cs" q rest] by simp
qed simp_all

datatype frame =
    ArrayFrame "json list"
  | ObjectFrame "(jsstring \<times> json) list" "jsstring option"

datatype expect =
    ExpValue | ExpValueOrClose | ExpKeyOrClose | ExpKey | ExpColon | ExpCommaOrClose | ExpEnd

type_synonym parser_state = "frame list \<times> expect \<times> json option"

fun push_value :: "json \<Rightarrow> frame list \<Rightarrow> parser_state option" where
  "push_value v [] = Some ([], ExpEnd, Some v)"
| "push_value v (ArrayFrame xs # st) = Some (ArrayFrame (xs @ [v]) # st, ExpCommaOrClose, None)"
| "push_value v (ObjectFrame kvs (Some k) # st) =
     Some (ObjectFrame (kvs @ [(k, v)]) None # st, ExpCommaOrClose, None)"
| "push_value v (ObjectFrame kvs None # st) = None"

fun close_array :: "frame list \<Rightarrow> parser_state option" where
  "close_array (ArrayFrame xs # st) = push_value (JArray xs) st"
| "close_array _ = None"

fun close_object :: "frame list \<Rightarrow> parser_state option" where
  "close_object (ObjectFrame kvs None # st) = push_value (JObject kvs) st"
| "close_object _ = None"

fun scalar :: "token \<Rightarrow> json option" where
  "scalar (TString s) = Some (JString s)"
| "scalar (TNumber q) = Some (JNumber q)"
| "scalar TTrue = Some (JBool True)"
| "scalar TFalse = Some (JBool False)"
| "scalar TNull = Some JNull"
| "scalar _ = None"

definition parse_value_token :: "frame list \<Rightarrow> token \<Rightarrow> parser_state option" where
  "parse_value_token st t =
     (case scalar t of
        Some v \<Rightarrow> push_value v st
      | None \<Rightarrow>
          (case t of
             TLBracket \<Rightarrow> Some (ArrayFrame [] # st, ExpValueOrClose, None)
           | TLBrace \<Rightarrow> Some (ObjectFrame [] None # st, ExpKeyOrClose, None)
           | _ \<Rightarrow> None))"

definition parse_key_token :: "frame list \<Rightarrow> token \<Rightarrow> parser_state option" where
  "parse_key_token st t =
     (case (t, st) of
        (TString k, ObjectFrame kvs None # st') \<Rightarrow> Some (ObjectFrame kvs (Some k) # st', ExpColon, None)
      | _ \<Rightarrow> None)"

fun parse_step :: "frame list \<Rightarrow> expect \<Rightarrow> token \<Rightarrow> parser_state option" where
  "parse_step st ExpValue t = parse_value_token st t"
| "parse_step st ExpValueOrClose t =
     (case t of TRBracket \<Rightarrow> close_array st | _ \<Rightarrow> parse_value_token st t)"
| "parse_step st ExpKey t = parse_key_token st t"
| "parse_step st ExpKeyOrClose t =
     (case t of TRBrace \<Rightarrow> close_object st | _ \<Rightarrow> parse_key_token st t)"
| "parse_step st ExpColon t = (case t of TColon \<Rightarrow> Some (st, ExpValue, None) | _ \<Rightarrow> None)"
| "parse_step st ExpCommaOrClose t =
     (case (st, t) of
        (ArrayFrame _ # _, TComma) \<Rightarrow> Some (st, ExpValue, None)
      | (ArrayFrame _ # _, TRBracket) \<Rightarrow> close_array st
      | (ObjectFrame _ _ # _, TComma) \<Rightarrow> Some (st, ExpKey, None)
      | (ObjectFrame _ _ # _, TRBrace) \<Rightarrow> close_object st
      | _ \<Rightarrow> None)"
| "parse_step st ExpEnd t = None"

fun parse_tokens :: "parser_state \<Rightarrow> token list \<Rightarrow> json option" where
  "parse_tokens (st, e, r) [] = (if e = ExpEnd then r else None)"
| "parse_tokens (st, e, r) (t # ts) =
     (case parse_step st e t of
        None \<Rightarrow> None
      | Some s' \<Rightarrow> parse_tokens s' ts)"

definition JSON_parse :: "jsstring \<Rightarrow> js_error + json" where
  "JSON_parse s =
     (case lex s of
        None \<Rightarrow> Inl SyntaxError
      | Some ts \<Rightarrow>
          (case parse_tokens ([], ExpValue, None) ts of
             None \<Rightarrow> Inl SyntaxError
           | Some v \<Rightarrow> Inr v))"

section \<open>Operations of the engine on JSON values\<close>

text \<open>
  A JavaScript value of the service is a JSON value or \<open>undefined\<close> (\<open>None\<close>): what a
  missing property or an index out of range reads as.
\<close>

type_synonym jsvalue = "json option"

text \<open>
  Numbers as the engine tests them, on the double nearest to the literal (ties to even):
  a literal reads as zero up to half the least subnormal; for a positive integer \<open>n\<close>
  below \<open>2^52\<close> the double exceeds \<open>n\<close> when the literal lies more than half a unit in the
  last place above it; and it equals \<open>4\<close> within half a unit on either side.
\<close>

definition number_is_zero :: "real \<Rightarrow> bool" where
  "number_is_zero q \<longleftrightarrow> \<bar>q\<bar> \<le> 1 / 2 ^ 1075"

definition number_gt :: "real \<Rightarrow> nat \<Rightarrow> bool" where
  "number_gt q n \<longleftrightarrow> real n + 1 / 2 ^ (54 - floorlog 2 n) < q"

definition number_eq_4 :: "real \<Rightarrow> bool" where
  "number_eq_4 q \<longleftrightarrow> 4 - 1 / 2 ^ 52 \<le> q \<and> q \<le> 4 + 1 / 2 ^ 51"

fun truthy :: "json \<Rightarrow> bool" where
  "truthy JNull = False"
| "truthy (JBool b) = b"
| "truthy (JNumber q) = (\<not> number_is_zero q)"
| "truthy (JString s) = (s \<noteq> [])"
| "truthy (JArray xs) = True"
| "truthy (JObject kvs) = True"

definition ToBoolean :: "jsvalue \<Rightarrow> bool" where
  "ToBoolean v = (case v of None \<Rightarrow> False | Some j \<Rightarrow> truthy j)"

definition lookup :: "(jsstring \<times> json) list \<Rightarrow> jsstring \<Rightarrow> jsvalue" where
  "lookup kvs k = map_of (rev kvs) k"

text \<open>
  \<open>v.k\<close> for the data properties the program reads (\<open>story\<close>, \<open>choices\<close>, \<open>id\<close>,
  \<open>text\<close>, \<open>length\<close>, \<open>candidates\<close>, \<open>content\<close>, \<open>parts\<close>): none of them is a property
  of a built-in prototype except \<open>length\<close> of arrays and strings. Reading a property of
  \<open>null\<close> is a \<open>TypeError\<close>. Methods are modelled where they are called.
\<close>

fun get_prop :: "json \<Rightarrow> jsstring \<Rightarrow> js_error + jsvalue" where
  "get_prop JNull k = Inl TypeError"
| "get_prop (JObject kvs) k = Inr (lookup kvs k)"
| "get_prop (JArray xs) k =
     Inr (if k = str ''length'' then Some (JNumber (real (length xs))) else None)"
| "get_prop (JString s) k =
     Inr (if k = str ''length'' then Some (JNumber (real (length s))) else None)"
| "get_prop (JBool b) k = Inr None"
| "get_prop (JNumber q) k = Inr None"

text \<open>\<open>v[n]\<close> for an index \<open>n\<close>.\<close>

fun get_index :: "json \<Rightarrow> nat \<Rightarrow> js_error + jsvalue" where
  "get_index JNull n = Inl TypeError"
| "get_index (JArray xs) n = Inr (if n < length xs then Some (xs ! n) else None)"
| "get_index (JString s) n = Inr (if n < length s then Some (JString [s ! n]) else None)"
| "get_index (JObject kvs) n = Inr (lookup kvs (toString n))"
| "get_index (JBool b) n = Inr None"
| "get_index (JNumber q) n = Inr None"

text \<open>Optional chaining \<open>v?.k\<close> and \<open>v?.[n]\<close>: \<open>undefined\<close> when \<open>v\<close> is \<open>null\<close> or \<open>undefined\<close>.\<close>

definition opt_prop :: "jsvalue \<Rightarrow> jsstring \<Rightarrow> jsvalue" where
  "opt_prop v k =
     (case v of
        None \<Rightarrow> None
      | Some JNull \<Rightarrow> None
      | Some j \<Rightarrow> (case get_prop j k of Inl e \<Rightarrow> None | Inr w \<Rightarrow> w))"

definition opt_index :: "jsvalue \<Rightarrow> nat \<Rightarrow> jsvalue" where
  "opt_index v n =
     (case v of
        None \<Rightarrow> None
      | Some JNull \<Rightarrow> None
      | Some j \<Rightarrow> (case get_index j n of Inl e \<Rightarrow> None | Inr w \<Rightarrow> w))"

subsection \<open>Conversion to a number, for the comparison \<open>x > n\<close>\<close>

datatype jsnum = NaN | Num real | PosInfinity | NegInfinity

text \<open>White space and line terminators: what \<open>trim\<close> and the string-to-number conversion strip.\<close>

definition is_js_ws :: "code_unit \<Rightarrow> bool" where
  "is_js_ws c \<longleftrightarrow>
     c = 0x09 \<or> c = 0x0A \<or> c = 0x0B \<or> c = 0x0C \<or> c = 0x0D \<or> c = 0x20 \<or> c = 0xA0 \<or>
     c = 0x1680 \<or> (0x2000 \<le> c \<and> c \<le> 0x200A) \<or> c = 0x2028 \<or> c = 0x2029 \<or>
     c = 0x202F \<or> c = 0x205F \<or> c = 0x3000 \<or> c = 0xFEFF"

definition trim :: "jsstring \<Rightarrow> jsstring" where
  "trim s = rev (dropWhile is_js_ws (rev (dropWhile is_js_ws s)))"

definition radix_value :: "nat \<Rightarrow> jsstring \<Rightarrow> nat option" where
  "radix_value b ds =
     (if ds \<noteq> [] \<and> list_all (\<lambda>c. case hex_val c of None \<Rightarrow> False | Some d \<Rightarrow> d < b) ds
      then Some (foldl (\<lambda>a c. b * a + (case hex_val c of None \<Rightarrow> 0 | Some d \<Rightarrow> d)) 0 ds)
      else None)"

definition radix_literal :: "jsstring \<Rightarrow> nat option" where
  "radix_literal t =
     (case t of
        z # x # ds \<Rightarrow>
          if z \<noteq> cu CHR ''0'' then None
          else if x = cu CHR ''x'' \<or> x = cu CHR ''X'' then radix_value 16 ds
          else if x = cu CHR ''o'' \<or> x = cu CHR ''O'' then radix_value 8 ds
          else if x = cu CHR ''b'' \<or> x = cu CHR ''B'' then radix_value 2 ds
          else None
      | _ \<Rightarrow> None)"

definition decimal_literal :: "jsstring \<Rightarrow> jsnum" where
  "decimal_literal t =
     (let neg = (case t of c # _ \<Rightarrow> c = cu CHR ''-'' | [] \<Rightarrow> False);
          signed = (case t of c # _ \<Rightarrow> c = cu CHR ''-'' \<or> c = cu CHR ''+'' | [] \<Rightarrow> False);
          t1 = (if signed then tl t else t);
          ds = takeWhile is_digit t1;
          r1 = dropWhile is_digit t1;
          dot = (case r1 of c # _ \<Rightarrow> c = cu CHR ''.'' | [] \<Rightarrow> False);
          fs = (if dot then takeWhile is_digit (tl r1) else []);
          r2 = (if dot then dropWhile is_digit (tl r1) else r1)
      in if ds = [] \<and> fs = [] then NaN
         else
           (case lex_exponent r2 of
              None \<Rightarrow> NaN
            | Some (e, r3) \<Rightarrow> if r3 = [] then Num (decimal_value neg ds fs e) else NaN))"

definition StringToNumber :: "jsstring \<Rightarrow> jsnum" where
  "StringToNumber s =
     (let t = trim s
      in if t = [] then Num 0
         else if t = str ''Infinity'' \<or> t = str ''+Infinity'' then PosInfinity
         else if t = str ''-Infinity'' then NegInfinity
         else
           (case radix_literal t of
              Some n \<Rightarrow> Num (real n)
            | None \<Rightarrow> decimal_literal t))"

text \<open>
  An object or array is converted through its string form. Converting an object to a string
  throws when the object has an own member \<open>toString\<close> (data, so not callable, and the
  inherited \<open>valueOf\<close> returns the object); an array joins the strings of its elements.
\<close>

fun ToString_throws :: "json \<Rightarrow> bool" where
  "ToString_throws (JObject kvs) = (lookup kvs (str ''toString'') \<noteq> None)"
| "ToString_throws (JArray xs) = list_ex ToString_throws xs"
| "ToString_throws _ = False"

fun ToNumber :: "json \<Rightarrow> js_error + jsnum" where
  "ToNumber JNull = Inr (Num 0)"
| "ToNumber (JBool b) = Inr (Num (if b then 1 else 0))"
| "ToNumber (JNumber q) = Inr (Num q)"
| "ToNumber (JString s) = Inr (StringToNumber s)"
| "ToNumber (JObject kvs) =
     (if ToString_throws (JObject kvs) then Inl TypeError else Inr NaN)"
| "ToNumber (JArray []) = Inr (Num 0)"
| "ToNumber (JArray [x]) =
     (if ToString_throws x then Inl TypeError
      else (case x of
              JNull \<Rightarrow> Inr (Num 0)
            | JBool b \<Rightarrow> Inr NaN
            | JObject kvs \<Rightarrow> Inr NaN
            | _ \<Rightarrow> ToNumber x))"
| "ToNumber (JArray (x # y # zs)) =
     (if list_ex ToString_throws (x # y # zs) then Inl TypeError else Inr NaN)"

text \<open>\<open>v > n\<close> for a value \<open>v\<close> and a positive integer literal \<open>n\<close>.\<close>

definition js_gt :: "jsvalue \<Rightarrow> nat \<Rightarrow> js_error + bool" where
  "js_gt v n =
     (case v of
        None \<Rightarrow> Inr False
      | Some j \<Rightarrow>
          (case ToNumber j of
             Inl e \<Rightarrow> Inl e
           | Inr NaN \<Rightarrow> Inr False
           | Inr (Num q) \<Rightarrow> Inr (number_gt q n)
           | Inr PosInfinity \<Rightarrow> Inr True
           | Inr NegInfinity \<Rightarrow> Inr False))"

text \<open>\<open>v.length === 4\<close>: strict equality, so only a number can be equal.\<close>

definition strict_eq_4 :: "jsvalue \<Rightarrow> bool" where
  "strict_eq_4 v = (case v of Some (JNumber q) \<Rightarrow> number_eq_4 q | _ \<Rightarrow> False)"

text \<open>
  \<open>s.match(/\{[\s\S]*\}/)\<close>: the match runs from the first \<open>{\<close> to the last \<open>}\<close> of the
  string, and there is none unless a \<open>}\<close> follows the first \<open>{\<close>.
\<close>

definition match_braces :: "jsstring \<Rightarrow> jsstring option" where
  "match_braces s =
     (let r = dropWhile (\<lambda>c. c \<noteq> cu CHR ''{'') s
      in if r = [] \<or> cu CHR ''}'' \<notin> set (tl r) then None
         else Some (rev (dropWhile (\<lambda>c. c \<noteq> cu CHR ''}'') (rev r))))"

text \<open>\<open>s.includes(p)\<close>.\<close>

fun js_includes :: "jsstring \<Rightarrow> jsstring \<Rightarrow> bool" where
  "js_includes [] p = (p = [])"
| "js_includes (c # cs) p = (prefix p (c # cs) \<or> js_includes cs p)"

section \<open>The service: \<open>src/services/aiService.ts\<close>\<close>

subsection \<open>\<open>getFallbackResponse\<close>\<close>

definition fallback0 :: jsstring where
  \<open>fallback0 = str
      (''{\<newline>'' @
       ''        "story": "Static fills the air. You stand at a digital crossroads where three paths converge. Each route pulses with different energy.",\<newline>'' @
       ''        "choices": [\<newline>'' @
       ''          {"id": "1", "text": "Take the glowing path"},\<newline>'' @
       ''          {"id": "2", "text": "Follow the dark route"},\<newline>'' @
       ''          {"id": "3", "text": "Choose the middle way"},\<newline>'' @
       ''          {"id": "4", "text": "Step back and observe"}\<newline>'' @
       ''        ]\<newline>'' @
       ''      }'')\<close>

definition fallback1 :: jsstring where
  \<open>fallback1 = str
      (''{\<newline>'' @
       ''        "story": "Connection unstable. Reality flickers around you like a broken screen. Through the static, you glimpse movement ahead.",\<newline>'' @
       ''        "choices": [\<newline>'' @
       ''          {"id": "1", "text": "Move toward the movement"},\<newline>'' @
       ''          {"id": "2", "text": "Wait for static to clear"},\<newline>'' @
       ''          {"id": "3", "text": "Touch the flickering air"},\<newline>'' @
       ''          {"id": "4", "text": "Call out loudly"}\<newline>'' @
       ''        ]\<newline>'' @
       ''      }'')\<close>

definition fallback2 :: jsstring where
  \<open>fallback2 = str
      (''{\<newline>'' @
       ''        "story": "Demo mode active. You find yourself in a liminal space between worlds. Shadows dance at the periphery of vision.",\<newline>'' @
       ''        "choices": [\<newline>'' @
       ''          {"id": "1", "text": "Approach the shadows"},\<newline>'' @
       ''          {"id": "2", "text": "Stand perfectly still"},\<newline>'' @
       ''          {"id": "3", "text": "Search for light"},\<newline>'' @
       ''          {"id": "4", "text": "Listen carefully"}\<newline>'' @
       ''        ]\<newline>'' @
       ''      }'')\<close>

definition fallback3 :: jsstring where
  \<open>fallback3 = str
      (''{\<newline>'' @
       ''        "story": "The narrative engine stutters. You're caught between story beats, suspended in potential. What happens next depends on you.",\<newline>'' @
       ''        "choices": [\<newline>'' @
       ''          {"id": "1", "text": "Force the story forward"},\<newline>'' @
       ''          {"id": "2", "text": "Embrace the uncertainty"},\<newline>'' @
       ''          {"id": "3", "text": "Look for an exit"},\<newline>'' @
       ''          {"id": "4", "text": "Reset everything"}\<newline>'' @
       ''        ]\<newline>'' @
       ''      }'')\<close>

definition fallback4 :: jsstring where
  \<open>fallback4 = str
      (''{\<newline>'' @
       ''        "story": "Connection lost. In this void, you sense opportunity hiding in the darkness. Your next choice will shape everything.",\<newline>'' @
       ''        "choices": [\<newline>'' @
       ''          {"id": "1", "text": "Reach into the darkness"},\<newline>'' @
       ''          {"id": "2", "text": "Create your own light"},\<newline>'' @
       ''          {"id": "3", "text": "Wait for revelation"},\<newline>'' @
       ''          {"id": "4", "text": "Embrace the void"}\<newline>'' @
       ''        ]\<newline>'' @
       ''      }'')\<close>

definition fallbacks :: "jsstring list" where
  "fallbacks = [fallback0, fallback1, fallback2, fallback3, fallback4]"

text \<open>
  \<open>Math.floor(Math.random() * fallbacks.length)\<close>. \<open>Math.random()\<close> returns a binary64
  number \<open>u\<close> that is at least 0 and less than 1, so at most \<open>1 - 1 / 2 ^ 53\<close>, the largest
  binary64 number below 1. The product is not the exact one: it is the binary64 number
  nearest to \<open>u * n\<close>, ties going to the even significand, and \<open>Math.floor\<close> is taken of
  that. For a whole number \<open>k\<close> from 1 to \<open>2 ^ 52\<close>, the binary64 numbers just below \<open>k\<close> are
  \<open>2 ^ (floorlog 2 (k - 1) - 53)\<close> apart, and the significand of \<open>k\<close> is even; so the rounded
  value of \<open>x\<close> is at least \<open>k\<close> exactly when \<open>x\<close> is at least \<open>k\<close> less half of that gap. The
  floor of the rounded product, which is at most \<open>n\<close>, is then the largest \<open>k\<close> up to
  \<open>n\<close> that the rounded product reaches, and 0 when it reaches none.
\<close>

definition is_random :: "real \<Rightarrow> bool" where
  "is_random u \<longleftrightarrow> 0 \<le> u \<and> u \<le> 1 - 1 / 2 ^ 53"

definition rounds_to_at_least :: "real \<Rightarrow> nat \<Rightarrow> bool" where
  "rounds_to_at_least x k \<longleftrightarrow> real k - 1 / 2 ^ (54 - floorlog 2 (k - 1)) \<le> x"

fun floor_of_rounded :: "real \<Rightarrow> nat \<Rightarrow> nat" where
  "floor_of_rounded x 0 = 0"
| "floor_of_rounded x (Suc k) =
     (if rounds_to_at_least x (Suc k) then Suc k else floor_of_rounded x k)"

definition random_index :: "real \<Rightarrow> nat \<Rightarrow> nat" where
  "random_index u n = floor_of_rounded (u * real n) n"

text \<open>
  \<open>fallbacks[Math.floor(Math.random() * fallbacks.length)]\<close>, with \<open>u\<close> what \<open>Math.random()\<close>
  returned; an index outside the array reads \<open>undefined\<close>.
\<close>

definition getFallbackResponse :: "real \<Rightarrow> jsvalue" where
  "getFallbackResponse u =
     (let i = random_index u (length fallbacks)
      in if i < length fallbacks then Some (JString (fallbacks ! i)) else None)"

subsection \<open>\<open>makeAPIRequest\<close>\<close>

text \<open>
  What the \<open>fetch\<close> of the request comes to: a rejection (a network failure), or a response
  with its status, status text and body. \<open>response.ok\<close> is a status from 200 to 299,
  \<open>response.text()\<close> is the body and \<open>response.json()\<close> is \<open>JSON.parse\<close> of it. The prompt
  only decides what the backend answers, which is this input.
\<close>

datatype http_outcome =
    FetchRejected js_error
  | Response (status: nat) (statusText: jsstring) (body: jsstring)

definition response_ok :: "nat \<Rightarrow> bool" where
  "response_ok st \<longleftrightarrow> 200 \<le> st \<and> st \<le> 299"

text \<open>\<open>data.candidates?.[0]?.content?.parts?.[0]?.text\<close>.\<close>

definition candidate_text :: "json \<Rightarrow> js_error + jsvalue" where
  "candidate_text data =
     (case get_prop data (str ''candidates'') of
        Inl e \<Rightarrow> Inl e
      | Inr c \<Rightarrow>
          Inr (opt_prop (opt_index (opt_prop (opt_prop (opt_index c 0) (str ''content''))
                 (str ''parts'')) 0) (str ''text'')))"

text \<open>The body of the \<open>try\<close> block: what it returns, or what it throws.\<close>

definition makeAPIRequest_try :: "http_outcome \<Rightarrow> js_error + jsvalue" where
  "makeAPIRequest_try out =
     (case out of
        FetchRejected e \<Rightarrow> Inl e
      | Response st stt b \<Rightarrow>
          if \<not> response_ok st then
            Inl (Error (str ''API request failed: '' @ toString st @ str '' '' @ stt @ str '' - '' @ b))
          else
            (case JSON_parse b of
               Inl e \<Rightarrow> Inl e
             | Inr data \<Rightarrow>
                 (case candidate_text data of
                    Inl e \<Rightarrow> Inl e
                  | Inr t \<Rightarrow>
                      if \<not> ToBoolean t then Inl (Error (str ''Invalid API response format''))
                      else Inr t)))"

text \<open>The \<open>catch\<close> block returns a fallback text whatever was thrown.\<close>

definition makeAPIRequest :: "http_outcome \<Rightarrow> real \<Rightarrow> js_error + jsvalue" where
  "makeAPIRequest out u =
     (case makeAPIRequest_try out of
        Inl e \<Rightarrow> Inr (getFallbackResponse u)
      | Inr v \<Rightarrow> Inr v)"

subsection \<open>\<open>generateStoryResponse\<close>: validation and repair of the parsed response\<close>

text \<open>\<open>a || b\<close> and the object literal \<open>{id: i, text: t}\<close>.\<close>

definition or_else :: "jsvalue \<Rightarrow> json \<Rightarrow> json" where
  "or_else v d = (case v of None \<Rightarrow> d | Some j \<Rightarrow> if truthy j then j else d)"

definition choice_object :: "json \<Rightarrow> json \<Rightarrow> json" where
  "choice_object i t = JObject [(str ''id'', i), (str ''text'', t)]"

text \<open>
  \<open>if (v.length > limit) v = v.substring(0, keep) + '...'\<close>, the repair applied to the story
  (400, 380) and to a choice text (35, 32). \<open>substring\<close> is a method of strings only:
  calling it on anything else is a \<open>TypeError\<close>.
\<close>

definition substring_from_0 :: "json \<Rightarrow> nat \<Rightarrow> js_error + jsstring" where
  "substring_from_0 v n = (case v of JString s \<Rightarrow> Inr (take n s) | _ \<Rightarrow> Inl TypeError)"

definition truncate_over :: "json \<Rightarrow> nat \<Rightarrow> nat \<Rightarrow> js_error + json" where
  "truncate_over v limit keep =
     (case get_prop v (str ''length'') of
        Inl e \<Rightarrow> Inl e
      | Inr len \<Rightarrow>
          (case js_gt len limit of
             Inl e \<Rightarrow> Inl e
           | Inr False \<Rightarrow> Inr v
           | Inr True \<Rightarrow>
               (case substring_from_0 v keep of
                  Inl e \<Rightarrow> Inl e
                | Inr s \<Rightarrow> Inr (JString (s @ str ''...'')))))"

definition defaultChoices :: "jsstring list" where
  "defaultChoices =
     [str ''Continue forward'', str ''Look around'', str ''Wait and listen'', str ''Go back'']"

text \<open>The choice the padding loop pushes when the array holds \<open>n\<close> choices.\<close>

definition default_choice :: "nat \<Rightarrow> json" where
  "default_choice n =
     choice_object (JString (toString (n + 1)))
       (JString (if n < length defaultChoices \<and> defaultChoices ! n \<noteq> [] then defaultChoices ! n
                 else str ''Option '' @ toString (n + 1)))"

function pad_choices :: "json list \<Rightarrow> json list" where
  "pad_choices cs = (if length cs < 4 then pad_choices (cs @ [default_choice (length cs)]) else cs)"
  by pat_completeness auto
termination
  by (relation "measure (\<lambda>cs. 4 - length cs)") auto

declare pad_choices.simps [simp del]

definition ensure_four_choices :: "json list \<Rightarrow> json list" where
  "ensure_four_choices cs = (if length cs \<noteq> 4 then take 4 (pad_choices cs) else cs)"

text \<open>The callback of \<open>choices.map\<close>, for the choice at \<open>index\<close>.\<close>

definition valid_choice :: "json \<Rightarrow> nat \<Rightarrow> js_error + json" where
  "valid_choice choice index =
     (case get_prop choice (str ''text'') of
        Inl e \<Rightarrow> Inl e
      | Inr t \<Rightarrow>
          (case truncate_over (or_else t (JString (str ''Option '' @ toString (index + 1)))) 35 32 of
             Inl e \<Rightarrow> Inl e
           | Inr choiceText \<Rightarrow>
               (case get_prop choice (str ''id'') of
                  Inl e \<Rightarrow> Inl e
                | Inr i \<Rightarrow>
                    Inr (choice_object (or_else i (JString (toString (index + 1)))) choiceText))))"

fun map_choices :: "nat \<Rightarrow> json list \<Rightarrow> js_error + json list" where
  "map_choices index [] = Inr []"
| "map_choices index (c # cs) =
     (case valid_choice c index of
        Inl e \<Rightarrow> Inl e
      | Inr v \<Rightarrow>
          (case map_choices (Suc index) cs of
             Inl e \<Rightarrow> Inl e
           | Inr vs \<Rightarrow> Inr (v # vs)))"

text \<open>From the structure check to the returned object, on the parsed response.\<close>

definition normalize_response :: "json \<Rightarrow> js_error + json" where
  "normalize_response parsedResponse =
     (case get_prop parsedResponse (str ''story'') of
        Inl e \<Rightarrow> Inl e
      | Inr story \<Rightarrow>
          (case get_prop parsedResponse (str ''choices'') of
             Inl e \<Rightarrow> Inl e
           | Inr choices \<Rightarrow>
               (case (story, choices) of
                  (Some s, Some (JArray cs)) \<Rightarrow>
                    if \<not> truthy s then Inl (Error (str ''Invalid response structure''))
                    else
                      (case truncate_over s 400 380 of
                         Inl e \<Rightarrow> Inl e
                       | Inr story' \<Rightarrow>
                           (case map_choices 0 (ensure_four_choices cs) of
                              Inl e \<Rightarrow> Inl e
                            | Inr validChoices \<Rightarrow>
                                Inr (JObject [(str ''story'', story'),
                                              (str ''choices'', JArray validChoices)])))
                | _ \<Rightarrow> Inl (Error (str ''Invalid response structure'')))))"

text \<open>The body of the \<open>try\<close> block after the request: \<open>trim\<close>, match, parse, normalise.\<close>

definition generateStoryResponse_try :: "jsvalue \<Rightarrow> js_error + json" where
  "generateStoryResponse_try response =
     (case response of
        Some (JString r) \<Rightarrow>
          (case match_braces (trim r) of
             None \<Rightarrow> Inl (Error (str ''No valid JSON found in response''))
           | Some jsonStr \<Rightarrow>
               (case JSON_parse jsonStr of
                  Inl e \<Rightarrow> Inl e
                | Inr parsedResponse \<Rightarrow> normalize_response parsedResponse))
      | _ \<Rightarrow> Inl TypeError)"

text \<open>
  The \<open>catch\<close> block: whatever the \<open>try\<close> block threw, a fallback text is drawn (\<open>u\<close>) and
  parsed. \<open>JSON.parse(undefined)\<close> is a \<open>SyntaxError\<close>.
\<close>

definition catch_fallback :: "js_error + json \<Rightarrow> real \<Rightarrow> js_error + json" where
  "catch_fallback r u =
     (case r of
        Inr v \<Rightarrow> Inr v
      | Inl e \<Rightarrow>
          (case getFallbackResponse u of
             Some (JString fallback) \<Rightarrow> JSON_parse fallback
           | _ \<Rightarrow> Inl SyntaxError))"

text \<open>
  The service's \<open>generateStoryResponse\<close>: \<open>out\<close> is what the request comes to, \<open>u1\<close> the
  draw of \<open>makeAPIRequest\<close>'s fallback and \<open>u2\<close> the draw of the \<open>catch\<close> block. \<open>Inl\<close> is a
  rejected promise.
\<close>

definition aiService_generateStoryResponse :: "http_outcome \<Rightarrow> real \<Rightarrow> real \<Rightarrow> js_error + json" where
  "aiService_generateStoryResponse out u1 u2 =
     catch_fallback
       (case makeAPIRequest out u1 of
          Inl e \<Rightarrow> Inl e
        | Inr response \<Rightarrow> generateStoryResponse_try response) u2"

subsection \<open>\<open>testConnection\<close>\<close>

text \<open>\<open>!!(parsed.story && parsed.choices && parsed.choices.length === 4)\<close>.\<close>

definition connection_reply_ok :: "json \<Rightarrow> js_error + bool" where
  "connection_reply_ok parsed =
     (case get_prop parsed (str ''story'') of
        Inl e \<Rightarrow> Inl e
      | Inr story \<Rightarrow>
          if \<not> ToBoolean story then Inr False
          else
            (case get_prop parsed (str ''choices'') of
               Inl e \<Rightarrow> Inl e
             | Inr None \<Rightarrow> Inr False
             | Inr (Some choices) \<Rightarrow>
                 if \<not> truthy choices then Inr False
                 else
                   (case get_prop choices (str ''length'') of
                      Inl e \<Rightarrow> Inl e
                    | Inr len \<Rightarrow> Inr (strict_eq_4 len))))"

definition testConnection_try :: "http_outcome \<Rightarrow> real \<Rightarrow> js_error + bool" where
  "testConnection_try out u =
     (case makeAPIRequest out u of
        Inl e \<Rightarrow> Inl e
      | Inr (Some (JString response)) \<Rightarrow>
          (case match_braces response of
             None \<Rightarrow> Inr False
           | Some m \<Rightarrow>
               (case JSON_parse m of
                  Inl e \<Rightarrow> Inl e
                | Inr parsed \<Rightarrow> connection_reply_ok parsed))
      | Inr _ \<Rightarrow> Inl TypeError)"

definition testConnection :: "http_outcome \<Rightarrow> real \<Rightarrow> js_error + bool" where
  "testConnection out u =
     (case testConnection_try out u of
        Inl e \<Rightarrow> Inr False
      | Inr b \<Rightarrow> Inr b)"

section \<open>The component: \<open>src/components/GameInterface.tsx\<close>\<close>

text \<open>
  The interfaces of the component. The \<open>timestamp\<close> of a message is the wall clock at its
  creation; nothing reads it, and it is left out.
\<close>

datatype message_type = Narrator | User | System | ErrorMessage

record GameMessage =
  msg_type :: message_type
  content :: jsstring

record GameChoice =
  choice_id :: jsstring
  choice_text :: jsstring

record AIResponse =
  story :: jsstring
  choices :: "GameChoice list"

record GameState =
  messages :: "GameMessage list"
  currentChoices :: "GameChoice list"
  isWaitingForResponse :: bool
  gameStarted :: bool
  storyTopic :: jsstring
  gameHistory :: "jsstring list"

text \<open>
  What is in flight: a \<open>generateStoryResponse\<close> suspended at its \<open>await\<close> (with its arguments
  and the \<open>apiError\<close> its closure captured), a \<open>testConnection\<close> whose \<open>then\<close> callback is
  that of the mount effect, of \<open>updateApiKey\<close> or of the choice \<open>Check connection\<close>, and the
  timer \<open>startGame\<close> sets.
\<close>

datatype task =
    Generation jsstring bool "jsstring option"
  | MountTest
  | ApiKeyTest
  | ConnectionCheck "jsstring option"
  | StartTimer "jsstring option"

text \<open>
  The state of the component: its four \<open>useState\<close> cells, the key of the service's
  configuration, and the tasks in flight.
\<close>

record component =
  gameState :: GameState
  userInput :: jsstring
  apiError :: "jsstring option"
  isUsingFallback :: bool
  apiKey :: jsstring
  pending :: "task list"

definition initialGameState :: GameState where
  "initialGameState =
     \<lparr>messages = [], currentChoices = [], isWaitingForResponse = False, gameStarted = False,
      storyTopic = [], gameHistory = []\<rparr>"

definition initial :: component where
  "initial =
     \<lparr>gameState = initialGameState, userInput = [], apiError = None, isUsingFallback = False,
      apiKey = str ''YOUR_GOOGLE_AI_STUDIO_API_KEY_HERE'', pending = []\<rparr>"

text \<open>\<open>setGameState(prev => ...)\<close>, and the truth value of a string or \<open>null\<close>.\<close>

definition setGameState :: "(GameState \<Rightarrow> GameState) \<Rightarrow> component \<Rightarrow> component" where
  "setGameState f s = s\<lparr>gameState := f (gameState s)\<rparr>"

definition is_set :: "jsstring option \<Rightarrow> bool" where
  "is_set v = (case v of None \<Rightarrow> False | Some m \<Rightarrow> m \<noteq> [])"

definition addMessage :: "message_type \<Rightarrow> jsstring \<Rightarrow> component \<Rightarrow> component" where
  "addMessage ty c s =
     setGameState (\<lambda>prev. prev\<lparr>messages := messages prev @ [\<lparr>msg_type = ty, content = c\<rparr>]\<rparr>) s"

text \<open>\<open>prev.gameHistory.slice(-10)\<close> is the last ten entries (all of them when there are fewer).\<close>

definition historyEntry :: "jsstring \<Rightarrow> jsstring \<Rightarrow> jsstring" where
  "historyEntry userAction narratorResponse =
     str ''Player: '' @ userAction @ str ''\<newline>Narrator: '' @ narratorResponse"

definition push_history :: "jsstring list \<Rightarrow> jsstring \<Rightarrow> jsstring list" where
  "push_history h entry = drop (length h - 10) h @ [entry]"

definition addToGameHistory :: "jsstring \<Rightarrow> jsstring \<Rightarrow> component \<Rightarrow> component" where
  "addToGameHistory userAction narratorResponse s =
     setGameState
       (\<lambda>prev. prev\<lparr>gameHistory :=
          push_history (gameHistory prev) (historyEntry userAction narratorResponse)\<rparr>) s"

subsection \<open>\<open>generateStoryResponse\<close>\<close>

text \<open>Up to the first \<open>await\<close>: the call is then in flight.\<close>

definition generateStoryResponse :: "jsstring \<Rightarrow> bool \<Rightarrow> jsstring option \<Rightarrow> component \<Rightarrow> component" where
  "generateStoryResponse userAction isFirstTurn closure_apiError s =
     (let s1 = setGameState (\<lambda>prev. prev\<lparr>isWaitingForResponse := True, currentChoices := []\<rparr>) s;
          s2 = s1\<lparr>apiError := None\<rparr>
      in s2\<lparr>pending := pending s2 @ [Generation userAction isFirstTurn closure_apiError]\<rparr>)"

definition recovery_choices :: "GameChoice list" where
  "recovery_choices =
     [\<lparr>choice_id = str ''1'', choice_text = str ''Try again''\<rparr>,
      \<lparr>choice_id = str ''2'', choice_text = str ''Restart adventure''\<rparr>,
      \<lparr>choice_id = str ''3'', choice_text = str ''Continue with demo mode''\<rparr>,
      \<lparr>choice_id = str ''4'', choice_text = str ''Update API settings''\<rparr>]"

text \<open>
  After the \<open>await\<close>: the service's promise is fulfilled with a response (\<open>Inr\<close>, of the
  declared type \<open>AIResponse\<close>) or rejected (\<open>Inl\<close>, with what
  \<open>error instanceof Error ? error.message : 'Unknown error occurred'\<close> evaluates to).
\<close>

definition generateStoryResponse_resume ::
  "jsstring \<Rightarrow> bool \<Rightarrow> jsstring option \<Rightarrow> jsstring + AIResponse \<Rightarrow> component \<Rightarrow> component" where
  "generateStoryResponse_resume userAction isFirstTurn closure_apiError result s =
     (case result of
        Inr response \<Rightarrow>
          (let s1 = addMessage Narrator (story response) s;
               s2 = (if \<not> isFirstTurn then addToGameHistory userAction (story response) s1 else s1);
               s3 = setGameState
                      (\<lambda>prev. prev\<lparr>isWaitingForResponse := False,
                                    currentChoices := choices response\<rparr>) s2
           in if js_includes (story response) (str ''offline mode'') \<or>
                 js_includes (story response) (str ''fallback'')
              then (let s4 = s3\<lparr>isUsingFallback := True\<rparr>
                    in if \<not> is_set closure_apiError
                       then s4\<lparr>apiError := Some (str ''Using offline mode - stories may be limited'')\<rparr>
                       else s4)
              else s3)
      | Inl errorMsg \<Rightarrow>
          (let s1 = s\<lparr>apiError := Some (str ''Failed to generate response: '' @ errorMsg)\<rparr>;
               s2 = addMessage ErrorMessage
                      (str ''NARRATIVE ENGINE ERROR: Unable to process request. The AI narrator is experiencing difficulties.'') s1
           in setGameState
                (\<lambda>prev. prev\<lparr>isWaitingForResponse := False, currentChoices := recovery_choices\<rparr>) s2))"

subsection \<open>The handlers\<close>

text \<open>
  \<open>startGame\<close>. The first system message carries \<open>gameState.storyTopic.toUpperCase()\<close>; the
  case mapping is the engine's (it follows the Unicode tables), and \<open>upperTopic\<close> is the
  string the engine returns for the topic.
\<close>

definition startGame :: "jsstring \<Rightarrow> component \<Rightarrow> component" where
  "startGame upperTopic s =
     (if trim (storyTopic (gameState s)) = [] then s
      else
        (let s1 = setGameState (\<lambda>prev. prev\<lparr>gameStarted := True, gameHistory := []\<rparr>) s;
             s2 = addMessage System (str ''INITIALIZING ADVENTURE: '' @ upperTopic) s1;
             s3 = (if isUsingFallback s then addMessage System (str ''RUNNING IN DEMO MODE...'') s2
                   else addMessage System (str ''CONNECTING TO AI NARRATOR...'') s2);
             s4 = addMessage System (str ''LOADING NARRATIVE ENGINE...'') s3;
             s5 = addMessage System (str ''REALITY MATRIX ESTABLISHED.'') s4;
             s6 = addMessage System (str ''===== ADVENTURE BEGINS ====='') s5
         in s6\<lparr>pending := pending s6 @ [StartTimer (apiError s)]\<rparr>))"

definition restartGame :: "component \<Rightarrow> component" where
  "restartGame s = s\<lparr>gameState := initialGameState, userInput := []\<rparr>"

text \<open>\<open>answer\<close> is what \<open>window.prompt\<close> returns: the text entered, or \<open>null\<close>.\<close>

definition updateApiKey :: "jsstring option \<Rightarrow> component \<Rightarrow> component" where
  "updateApiKey answer s =
     (case answer of
        None \<Rightarrow> s
      | Some newApiKey \<Rightarrow>
          if newApiKey = [] \<or> trim newApiKey = [] then s
          else
            (let s1 = s\<lparr>apiKey := trim newApiKey, apiError := None\<rparr>;
                 s2 = addMessage System (str ''API KEY UPDATED. TESTING CONNECTION...'') s1
             in s2\<lparr>pending := pending s2 @ [ApiKeyTest]\<rparr>))"

text \<open>\<open>s.replace(p, '')\<close> for a string pattern: the first occurrence is removed.\<close>

fun remove_first :: "jsstring \<Rightarrow> jsstring \<Rightarrow> jsstring" where
  "remove_first p [] = []"
| "remove_first p (c # cs) =
     (if prefix p (c # cs) then drop (length p) (c # cs) else c # remove_first p cs)"

text \<open>
  \<open>gameHistory[gameHistory.length - 1]?.split('\n')[0]?.replace('Player: ', '') || 'continue'\<close>,
  for a history that is not empty.
\<close>

definition lastAction :: "jsstring list \<Rightarrow> jsstring" where
  "lastAction h =
     (let a = remove_first (str ''Player: '') (takeWhile (\<lambda>c. c \<noteq> 0x0A) (last h))
      in if a = [] then str ''continue'' else a)"

definition user_line :: "jsstring \<Rightarrow> jsstring" where
  "user_line t = str ''> '' @ t"

definition handleChoice :: "jsstring option \<Rightarrow> GameChoice \<Rightarrow> component \<Rightarrow> component" where
  "handleChoice answer choice s =
     (if choice_text choice = str ''Restart adventure'' then restartGame s
      else if choice_text choice = str ''Try again'' \<and> 0 < length (gameHistory (gameState s)) then
        generateStoryResponse (lastAction (gameHistory (gameState s))) False (apiError s)
          (addMessage User (user_line (choice_text choice)) s)
      else if choice_text choice = str ''Update API settings'' then updateApiKey answer s
      else if choice_text choice = str ''Continue with demo mode'' then
        (let s1 = addMessage User (user_line (choice_text choice)) s;
             s2 = addMessage System (str ''SWITCHING TO DEMO MODE...'') s1;
             s3 = s2\<lparr>isUsingFallback := True,
                      apiError := Some (str ''Demo mode active - limited story variations'')\<rparr>
         in generateStoryResponse (str ''continue in demo mode'') False (apiError s) s3)
      else if choice_text choice = str ''Check connection'' then
        (let s1 = addMessage User (user_line (choice_text choice)) s;
             s2 = addMessage System (str ''TESTING AI CONNECTION...'') s1
         in s2\<lparr>pending := pending s2 @ [ConnectionCheck (apiError s)]\<rparr>)
      else
        generateStoryResponse (choice_text choice) False (apiError s)
          (addMessage User (user_line (choice_text choice)) s))"

definition handleUserInput :: "component \<Rightarrow> component" where
  "handleUserInput s =
     (if trim (userInput s) = [] \<or> isWaitingForResponse (gameState s) then s
      else
        (generateStoryResponse (userInput s) False (apiError s)
           (addMessage User (user_line (userInput s)) s))\<lparr>userInput := []\<rparr>)"

text \<open>The mount effect, with the service's \<open>getApiKeyStatus\<close>.\<close>

definition getApiKeyStatus_invalid :: "component \<Rightarrow> bool" where
  "getApiKeyStatus_invalid s \<longleftrightarrow>
     apiKey s = [] \<or> apiKey s = str ''YOUR_GOOGLE_AI_STUDIO_API_KEY_HERE''"

definition mount :: "component \<Rightarrow> component" where
  "mount s =
     (if getApiKeyStatus_invalid s
      then s\<lparr>apiError := Some (str ''No API key configured. Using demo mode.''),
             isUsingFallback := True\<rparr>
      else s\<lparr>pending := pending s @ [MountTest]\<rparr>)"

subsection \<open>Completions and events\<close>

text \<open>
  How a task in flight completes: the service's promise settles, a connection test
  answers, the timer fires. The continuation of the task then runs.
\<close>

datatype completion = Generated "jsstring + AIResponse" | Connected bool | Fired

definition continue_task :: "task \<Rightarrow> completion \<Rightarrow> component \<Rightarrow> component option" where
  "continue_task tk c s =
     (case (tk, c) of
        (Generation userAction isFirstTurn closure_apiError, Generated r) \<Rightarrow>
          Some (generateStoryResponse_resume userAction isFirstTurn closure_apiError r s)
      | (StartTimer closure_apiError, Fired) \<Rightarrow>
          Some (generateStoryResponse [] True closure_apiError s)
      | (MountTest, Connected isConnected) \<Rightarrow>
          Some (if \<not> isConnected
                then s\<lparr>apiError := Some (str ''AI service connection failed. Using fallback responses.''),
                       isUsingFallback := True\<rparr>
                else s\<lparr>apiError := None, isUsingFallback := False\<rparr>)
      | (ApiKeyTest, Connected isConnected) \<Rightarrow>
          Some (if isConnected
                then (addMessage System (str ''CONNECTION SUCCESSFUL! AI NARRATOR ONLINE.'') s)
                       \<lparr>isUsingFallback := False\<rparr>
                else (addMessage System (str ''CONNECTION FAILED. CHECK YOUR API KEY.'') s)
                       \<lparr>apiError := Some (str ''Invalid API key or connection failed''),
                        isUsingFallback := True\<rparr>)
      | (ConnectionCheck closure_apiError, Connected isConnected) \<Rightarrow>
          Some (if isConnected
                then generateStoryResponse (str ''check surroundings'') False closure_apiError
                       ((addMessage System (str ''CONNECTION RESTORED. CONTINUING ADVENTURE...'') s)
                          \<lparr>apiError := None, isUsingFallback := False\<rparr>)
                else (addMessage System (str ''CONNECTION FAILED. USING LOCAL FALLBACK MODE.'') s)
                       \<lparr>apiError := Some (str ''Using offline mode''), isUsingFallback := True\<rparr>)
      | _ \<Rightarrow> None)"

definition settle :: "nat \<Rightarrow> completion \<Rightarrow> component \<Rightarrow> component" where
  "settle i c s =
     (if i < length (pending s)
      then (case continue_task (pending s ! i) c
                   (s\<lparr>pending := take i (pending s) @ drop (Suc i) (pending s)\<rparr>) of
              None \<Rightarrow> s
            | Some s' \<Rightarrow> s')
      else s)"

text \<open>
  What can happen to the component: the user acts on what is rendered, or a task in flight
  completes. The start screen is rendered until the game has started. In the game screen
  the choice buttons are rendered only when there are choices and no response is awaited,
  and the text input is disabled while one is. \<open>StartGame\<close> carries what the engine's
  \<open>toUpperCase\<close> makes of the topic.
\<close>

datatype event =
    TypeTopic jsstring
  | StartGame jsstring
  | TypeInput jsstring
  | SubmitInput
  | ClickChoice nat "jsstring option"
  | ClickRestart
  | ClickApi "jsstring option"
  | Settle nat completion

fun step :: "component \<Rightarrow> event \<Rightarrow> component" where
  "step s (TypeTopic t) =
     (if gameStarted (gameState s) then s
      else setGameState (\<lambda>prev. prev\<lparr>storyTopic := t\<rparr>) s)"
| "step s (StartGame upperTopic) =
     (if gameStarted (gameState s) then s else startGame upperTopic s)"
| "step s (TypeInput t) =
     (if gameStarted (gameState s) \<and> \<not> isWaitingForResponse (gameState s)
      then s\<lparr>userInput := t\<rparr> else s)"
| "step s SubmitInput = (if gameStarted (gameState s) then handleUserInput s else s)"
| "step s (ClickChoice n answer) =
     (if gameStarted (gameState s) \<and> \<not> isWaitingForResponse (gameState s) \<and>
         n < length (currentChoices (gameState s))
      then handleChoice answer (currentChoices (gameState s) ! n) s else s)"
| "step s ClickRestart = (if gameStarted (gameState s) then restartGame s else s)"
| "step s (ClickApi answer) =
     (if is_set (apiError s) \<or> (gameStarted (gameState s) \<and> isUsingFallback s)
      then updateApiKey answer s else s)"
| "step s (Settle i c) = settle i c s"

definition run :: "component \<Rightarrow> event list \<Rightarrow> component" where
  "run s evs = foldl step s evs"

text \<open>The generation calls in flight.\<close>

fun is_generation :: "task \<Rightarrow> bool" where
  "is_generation (Generation a f c) = True"
| "is_generation _ = False"

definition in_flight :: "component \<Rightarrow> nat" where
  "in_flight s = length (filter is_generation (pending s))"

subsection \<open>A turn from request to settled state\<close>

text \<open>
  The value the service returns, read at the type the component declares for it
  (\<open>const response: AIResponse\<close>); \<open>None\<close> when the value is not of that type. The
  component is modelled on responses of the declared type. With a story that is not a
  string the code stores a narrator message whose content is not a string, and
  \<open>response.story.includes\<close> then throws into the \<open>catch\<close> branch of the component; such a
  turn is outside this model, and \<open>takeTurn\<close> has no state for it.
\<close>

definition as_string :: "jsvalue \<Rightarrow> jsstring option" where
  "as_string v = (case v of Some (JString s) \<Rightarrow> Some s | _ \<Rightarrow> None)"

definition as_GameChoice :: "json \<Rightarrow> GameChoice option" where
  "as_GameChoice v =
     (case v of
        JObject kvs \<Rightarrow>
          (case (as_string (lookup kvs (str ''id'')), as_string (lookup kvs (str ''text''))) of
             (Some i, Some t) \<Rightarrow> Some \<lparr>choice_id = i, choice_text = t\<rparr>
           | _ \<Rightarrow> None)
      | _ \<Rightarrow> None)"

definition as_AIResponse :: "json \<Rightarrow> AIResponse option" where
  "as_AIResponse v =
     (case v of
        JObject kvs \<Rightarrow>
          (case (lookup kvs (str ''story''), lookup kvs (str ''choices'')) of
             (Some (JString s), Some (JArray cs)) \<Rightarrow>
               if list_all (\<lambda>c. as_GameChoice c \<noteq> None) cs
               then Some \<lparr>story = s, choices = map (\<lambda>c. the (as_GameChoice c)) cs\<rparr>
               else None
           | _ \<Rightarrow> None)
      | _ \<Rightarrow> None)"



section \<open>The fallback pool as typed payloads\<close>

text \<open>
  The five texts of the pool, as the values they parse to (\<open>parse_fallbacks\<close> proves that
  they do).
\<close>

definition fallback_response0 :: AIResponse where
  \<open>fallback_response0 =
     \<lparr>story = str ''Static fills the air. You stand at a digital crossroads where three paths converge. Each route pulses with different energy.'',
      choices =
          [\<lparr>choice_id = str ''1'', choice_text = str ''Take the glowing path''\<rparr>,
           \<lparr>choice_id = str ''2'', choice_text = str ''Follow the dark route''\<rparr>,
           \<lparr>choice_id = str ''3'', choice_text = str ''Choose the middle way''\<rparr>,
           \<lparr>choice_id = str ''4'', choice_text = str ''Step back and observe''\<rparr>]\<rparr>\<close>

definition fallback_response1 :: AIResponse where
  \<open>fallback_response1 =
     \<lparr>story = str ''Connection unstable. Reality flickers around you like a broken screen. Through the static, you glimpse movement ahead.'',
      choices =
          [\<lparr>choice_id = str ''1'', choice_text = str ''Move toward the movement''\<rparr>,
           \<lparr>choice_id = str ''2'', choice_text = str ''Wait for static to clear''\<rparr>,
           \<lparr>choice_id = str ''3'', choice_text = str ''Touch the flickering air''\<rparr>,
           \<lparr>choice_id = str ''4'', choice_text = str ''Call out loudly''\<rparr>]\<rparr>\<close>

definition fallback_response2 :: AIResponse where
  \<open>fallback_response2 =
     \<lparr>story = str ''Demo mode active. You find yourself in a liminal space between worlds. Shadows dance at the periphery of vision.'',
      choices =
          [\<lparr>choice_id = str ''1'', choice_text = str ''Approach the shadows''\<rparr>,
           \<lparr>choice_id = str ''2'', choice_text = str ''Stand perfectly still''\<rparr>,
           \<lparr>choice_id = str ''3'', choice_text = str ''Search for light''\<rparr>,
           \<lparr>choice_id = str ''4'', choice_text = str ''Listen carefully''\<rparr>]\<rparr>\<close>

definition fallback_response3 :: AIResponse where
  \<open>fallback_response3 =
     \<lparr>story = str ''The narrative engine stutters. You're caught between story beats, suspended in potential. What happens next depends on you.'',
      choices =
          [\<lparr>choice_id = str ''1'', choice_text = str ''Force the story forward''\<rparr>,
           \<lparr>choice_id = str ''2'', choice_text = str ''Embrace the uncertainty''\<rparr>,
           \<lparr>choice_id = str ''3'', choice_text = str ''Look for an exit''\<rparr>,
           \<lparr>choice_id = str ''4'', choice_text = str ''Reset everything''\<rparr>]\<rparr>\<close>

definition fallback_response4 :: AIResponse where
  \<open>fallback_response4 =
     \<lparr>story = str ''Connection lost. In this void, you sense opportunity hiding in the darkness. Your next choice will shape everything.'',
      choices =
          [\<lparr>choice_id = str ''1'', choice_text = str ''Reach into the darkness''\<rparr>,
           \<lparr>choice_id = str ''2'', choice_text = str ''Create your own light''\<rparr>,
           \<lparr>choice_id = str ''3'', choice_text = str ''Wait for revelation''\<rparr>,
           \<lparr>choice_id = str ''4'', choice_text = str ''Embrace the void''\<rparr>]\<rparr>\<close>

definition fallback_responses :: "AIResponse list" where
  "fallback_responses =
     [fallback_response0, fallback_response1, fallback_response2, fallback_response3,
      fallback_response4]"

text \<open>The JSON value of a response: \<open>{story, choices: [{id, text}, ...]}\<close>.\<close>

definition json_of_choice :: "GameChoice \<Rightarrow> json" where
  "json_of_choice c = choice_object (JString (choice_id c)) (JString (choice_text c))"

definition json_of_response :: "AIResponse \<Rightarrow> json" where
  "json_of_response r =
     JObject [(str ''story'', JString (story r)),
              (str ''choices'', JArray (map json_of_choice (choices r)))]"

section \<open>The repairs as the specification words them\<close>

text \<open>
  The story after the length repair, and a choice after the per-choice repair, written
  from the specification's sentences; the theorems below compare them with what
  \<open>normalize_response\<close> computes.
\<close>

definition repaired_story :: "jsstring \<Rightarrow> jsstring" where
  "repaired_story s = (if 400 < length s then take 380 s @ str ''...'' else s)"

definition repaired_id :: "jsstring option \<Rightarrow> nat \<Rightarrow> jsstring" where
  "repaired_id i n =
     (case i of None \<Rightarrow> toString (n + 1) | Some x \<Rightarrow> if x = [] then toString (n + 1) else x)"

definition repaired_text :: "jsstring option \<Rightarrow> nat \<Rightarrow> jsstring" where
  "repaired_text t n =
     (let t0 = (case t of
                  None \<Rightarrow> str ''Option '' @ toString (n + 1)
                | Some x \<Rightarrow> if x = [] then str ''Option '' @ toString (n + 1) else x)
      in if 35 < length t0 then take 32 t0 @ str ''...'' else t0)"

definition repaired_choice :: "jsstring option \<Rightarrow> jsstring option \<Rightarrow> nat \<Rightarrow> json" where
  "repaired_choice i t n = choice_object (JString (repaired_id i n)) (JString (repaired_text t n))"

text \<open>
  A choice entry as the interface declares it, except that a field may be missing: an
  object whose \<open>id\<close> and \<open>text\<close> are strings where present.
\<close>

definition string_field :: "jsvalue \<Rightarrow> jsstring option option" where
  "string_field v =
     (case v of None \<Rightarrow> Some None | Some (JString x) \<Rightarrow> Some (Some x) | Some _ \<Rightarrow> None)"

definition choice_fields :: "json \<Rightarrow> (jsstring option \<times> jsstring option) option" where
  "choice_fields c =
     (case c of
        JObject kvs \<Rightarrow>
          (case (string_field (lookup kvs (str ''id'')), string_field (lookup kvs (str ''text''))) of
             (Some i, Some t) \<Rightarrow> Some (i, t)
           | _ \<Rightarrow> None)
      | _ \<Rightarrow> None)"



text \<open>The choices of a returned payload.\<close>

definition choices_of :: "json \<Rightarrow> json list option" where
  "choices_of v =
     (case get_prop v (str ''choices'') of Inr (Some (JArray vs)) \<Rightarrow> Some vs | _ \<Rightarrow> None)"

text \<open>
  The invariants of a turn payload: a story that is not empty and has at most 400
  characters, and exactly four choices whose texts have at most 35.
\<close>

definition TurnPayload_valid :: "AIResponse \<Rightarrow> bool" where
  "TurnPayload_valid r \<longleftrightarrow>
     story r \<noteq> [] \<and> length (story r) \<le> 400 \<and> length (choices r) = 4 \<and>
     list_all (\<lambda>c. length (choice_text c) \<le> 35) (choices r)"

text \<open>
  A text of the pool is valid as it stands: it parses to a payload of the declared type
  that satisfies the invariants and that the repairs leave as it is.
\<close>

definition pool_entry_valid :: "jsstring \<Rightarrow> bool" where
  "pool_entry_valid f =
     (case JSON_parse f of
        Inl e \<Rightarrow> False
      | Inr v \<Rightarrow>
          (case as_AIResponse v of
             None \<Rightarrow> False
           | Some r \<Rightarrow> TurnPayload_valid r \<and> normalize_response v = Inr v))"

text \<open>
  The request failed, in the specification's words: the transport failed, the status is
  not a success, or the response has no text at the expected place (a body that is not
  JSON has none).
\<close>

definition request_failed :: "http_outcome \<Rightarrow> bool" where
  "request_failed out =
     (case out of
        FetchRejected e \<Rightarrow> True
      | Response st stt b \<Rightarrow>
          \<not> response_ok st \<or>
          (case JSON_parse b of
             Inl e \<Rightarrow> True
           | Inr data \<Rightarrow>
               (case candidate_text data of Inl e \<Rightarrow> True | Inr t \<Rightarrow> \<not> ToBoolean t)))"

section \<open>Sessions used in the statements\<close>

text \<open>
  A completed turn that is not the first: \<open>generateStoryResponse(userAction)\<close> is called and
  the service's promise is fulfilled with \<open>response\<close>; and a sequence of such turns.
\<close>

definition completeTurn :: "jsstring \<Rightarrow> AIResponse \<Rightarrow> component \<Rightarrow> component" where
  "completeTurn userAction response s =
     settle (length (pending s)) (Generated (Inr response))
       (generateStoryResponse userAction False (apiError s) s)"

fun play :: "component \<Rightarrow> (jsstring \<times> AIResponse) list \<Rightarrow> component" where
  "play s [] = s"
| "play s ((userAction, response) # turns) = play (completeTurn userAction response s) turns"

text \<open>
  What the player does in the session in which the start timer meets a turn in flight: a
  topic is entered, the game is started, and a typed action is submitted before the timer
  of \<open>startGame\<close> (2.5 seconds) has fired.
\<close>

definition early_input :: "event list" where
  "early_input = [TypeTopic (str ''cave''), StartGame (str ''CAVE''), TypeInput (str ''look''), SubmitInput]"

text \<open>
  And the session in which the action is typed but not yet submitted when the timer fires:
  the first turn is then in flight, with the typed text in the input.
\<close>

definition typed_when_timer_fires :: "event list" where
  "typed_when_timer_fires =
     [TypeTopic (str ''cave''), StartGame (str ''CAVE''), TypeInput (str ''look''), Settle 0 Fired]"

section \<open>Lemmas\<close>

subsection \<open>Numbers, strings and the padding loop\<close>

lemma toString_lt10: "n < 10 \<Longrightarrow> toString n = [of_nat (48 + n)]"
  by (subst toString.simps) simp

lemma toString_nonempty [simp]: "toString n \<noteq> []"
  by (subst toString.simps) simp

lemma floorlog_400: "floorlog 2 400 = 9"
  by (simp add: compute_floorlog)

lemma floorlog_35: "floorlog 2 35 = 6"
  by (simp add: compute_floorlog)

lemma number_gt_length_400: "number_gt (real m) 400 \<longleftrightarrow> 400 < m"
proof -
  have e: "(0::real) < 1 / 2 ^ 45" "(1::real) / 2 ^ 45 < 1" by simp_all
  show ?thesis
  proof
    assume "number_gt (real m) 400"
    then have "real 400 < real m" using e by (simp add: number_gt_def floorlog_400)
    then show "400 < m" by linarith
  next
    assume "400 < m"
    then have "real 400 + 1 \<le> real m" by linarith
    then show "number_gt (real m) 400" using e by (simp add: number_gt_def floorlog_400)
  qed
qed

lemma number_gt_length_35: "number_gt (real m) 35 \<longleftrightarrow> 35 < m"
proof -
  have e: "(0::real) < 1 / 2 ^ 48" "(1::real) / 2 ^ 48 < 1" by simp_all
  show ?thesis
  proof
    assume "number_gt (real m) 35"
    then have "real 35 < real m" using e by (simp add: number_gt_def floorlog_35)
    then show "35 < m" by linarith
  next
    assume "35 < m"
    then have "real 35 + 1 \<le> real m" by linarith
    then show "number_gt (real m) 35" using e by (simp add: number_gt_def floorlog_35)
  qed
qed

lemma str_length [simp]: "length (str s) = length s"
  by (simp add: str_def)

lemma truncate_over_string_400:
  "truncate_over (JString s) 400 380 =
     Inr (JString (if 400 < length s then take 380 s @ str ''...'' else s))"
  by (simp add: truncate_over_def js_gt_def number_gt_length_400 substring_from_0_def)

lemma truncate_over_string_35:
  "truncate_over (JString s) 35 32 =
     Inr (JString (if 35 < length s then take 32 s @ str ''...'' else s))"
  by (simp add: truncate_over_def js_gt_def number_gt_length_35 substring_from_0_def)

lemma pad_choices_length: "length (pad_choices cs) = max 4 (length cs)"
proof (induction cs rule: pad_choices.induct)
  case (1 cs)
  show ?case
  proof (cases "length cs < 4")
    case True
    then show ?thesis using 1 by (subst pad_choices.simps) simp
  next
    case False
    then show ?thesis by (subst pad_choices.simps) simp
  qed
qed



subsection \<open>The per-choice repair over a list\<close>

lemma lookup_story_choices [simp]:
  "lookup [(str ''story'', a), (str ''choices'', b)] (str ''story'') = Some a"
  "lookup [(str ''story'', a), (str ''choices'', b)] (str ''choices'') = Some b"
  by (simp_all add: lookup_def str_def)

lemma lookup_choice_object [simp]:
  "lookup [(str ''id'', a), (str ''text'', b)] (str ''id'') = Some a"
  "lookup [(str ''id'', a), (str ''text'', b)] (str ''text'') = Some b"
  by (simp_all add: lookup_def str_def)

lemma map_choices_length: "map_choices i xs = Inr vs \<Longrightarrow> length vs = length xs"
  by (induction xs arbitrary: i vs) (auto split: sum.splits)

lemma map_choices_nth:
  "map_choices i xs = Inr vs \<Longrightarrow> n < length xs \<Longrightarrow> valid_choice (xs ! n) (i + n) = Inr (vs ! n)"
proof (induction xs arbitrary: i vs n)
  case Nil
  then show ?case by simp
next
  case (Cons x xs)
  from Cons.prems(1) obtain v ws where
    v: "valid_choice x i = Inr v" and ws: "map_choices (Suc i) xs = Inr ws" and vs: "vs = v # ws"
    by (auto split: sum.splits)
  show ?case
  proof (cases n)
    case 0
    then show ?thesis using v vs by simp
  next
    case (Suc m)
    then have "m < length xs" using Cons.prems(2) by simp
    from Cons.IH [OF ws this] show ?thesis using Suc vs by simp
  qed
qed

lemma map_choices_all:
  "(\<And>n. n < length xs \<Longrightarrow> valid_choice (xs ! n) (i + n) = Inr (f n)) \<Longrightarrow>
   map_choices i xs = Inr (map f [0..<length xs])"
proof (induction xs arbitrary: i f)
  case Nil
  then show ?case by simp
next
  case (Cons x xs)
  have h: "valid_choice x i = Inr (f 0)" using Cons.prems [of 0] by simp
  have "map_choices (Suc i) xs = Inr (map (\<lambda>n. f (Suc n)) [0..<length xs])"
  proof (rule Cons.IH)
    fix n assume "n < length xs"
    then show "valid_choice (xs ! n) (Suc i + n) = Inr (f (Suc n))"
      using Cons.prems [of "Suc n"] by simp
  qed
  moreover have "map f [0..<length (x # xs)] = f 0 # map (\<lambda>n. f (Suc n)) [0..<length xs]"
    by (simp add: upt_conv_Cons map_Suc_upt [symmetric] del: upt_Suc)
  ultimately show ?case using h by simp
qed



lemma ensure_four_choices_length: "length (ensure_four_choices cs) = 4"
  by (simp add: ensure_four_choices_def pad_choices_length)



lemma normalize_object:
  assumes "lookup kvs (str ''story'') = Some s" and "truthy s"
      and "lookup kvs (str ''choices'') = Some (JArray cs)"
  shows "normalize_response (JObject kvs) =
           (case truncate_over s 400 380 of
              Inl e \<Rightarrow> Inl e
            | Inr story' \<Rightarrow>
                (case map_choices 0 (ensure_four_choices cs) of
                   Inl e \<Rightarrow> Inl e
                 | Inr validChoices \<Rightarrow>
                     Inr (JObject [(str ''story'', story'), (str ''choices'', JArray validChoices)])))"
  using assms by (simp add: normalize_response_def)

subsection \<open>The fallback pool\<close>

lemma match_braces_whole:
  assumes ne: "s \<noteq> []" and h: "hd s = cu CHR ''{''" and l: "last s = cu CHR ''}''"
      and n: "2 \<le> length s"
  shows "match_braces s = Some s"
proof -
  from ne h obtain r where s: "s = cu CHR ''{'' # r" by (cases s) auto
  with n have r: "r \<noteq> []" by auto
  with l s have lr: "last r = cu CHR ''}''" by simp
  then have mem: "cu CHR ''}'' \<in> set r" using r last_in_set by metis
  have d: "dropWhile (\<lambda>c. c \<noteq> cu CHR ''{'') s = s" using s by simp
  from r lr obtain b where rb: "r = b @ [cu CHR ''}'']" by (metis append_butlast_last_id)
  have "dropWhile (\<lambda>c. c \<noteq> cu CHR ''}'') (rev (cu CHR ''{'' # b @ [cu CHR ''}''])) =
        rev (cu CHR ''{'' # b @ [cu CHR ''}''])"
    by simp
  then have e: "dropWhile (\<lambda>c. c \<noteq> cu CHR ''}'') (rev s) = rev s"
    using s rb by simp
  have "match_braces s =
          (if s = [] \<or> cu CHR ''}'' \<notin> set (tl s) then None
           else Some (rev (dropWhile (\<lambda>c. c \<noteq> cu CHR ''}'') (rev s))))"
    unfolding match_braces_def Let_def d ..
  then show ?thesis using e mem s by simp
qed

lemma trim_id:
  assumes ne: "s \<noteq> []" and h: "\<not> is_js_ws (hd s)" and l: "\<not> is_js_ws (last s)"
  shows "trim s = s"
proof -
  have a: "dropWhile is_js_ws s = s" using ne h by (cases s) auto
  from ne obtain b where sb: "s = b @ [last s]" by (metis append_butlast_last_id)
  have "dropWhile is_js_ws (rev (b @ [last s])) = rev (b @ [last s])" using l by simp
  then have "dropWhile is_js_ws (rev s) = rev s" using sb by simp
  then show ?thesis using a by (simp add: trim_def)
qed

lemma fallback0_shape:
  "hd fallback0 = cu CHR ''{'' \<and> last fallback0 = cu CHR ''}'' \<and> 2 \<le> length fallback0"
  by (simp add: fallback0_def str_def)

lemma fallback1_shape:
  "hd fallback1 = cu CHR ''{'' \<and> last fallback1 = cu CHR ''}'' \<and> 2 \<le> length fallback1"
  by (simp add: fallback1_def str_def)

lemma fallback2_shape:
  "hd fallback2 = cu CHR ''{'' \<and> last fallback2 = cu CHR ''}'' \<and> 2 \<le> length fallback2"
  by (simp add: fallback2_def str_def)

lemma fallback3_shape:
  "hd fallback3 = cu CHR ''{'' \<and> last fallback3 = cu CHR ''}'' \<and> 2 \<le> length fallback3"
  by (simp add: fallback3_def str_def)

lemma fallback4_shape:
  "hd fallback4 = cu CHR ''{'' \<and> last fallback4 = cu CHR ''}'' \<and> 2 \<le> length fallback4"
  by (simp add: fallback4_def str_def)

lemma fallbacks_match: "f \<in> set fallbacks \<Longrightarrow> match_braces f = Some f \<and> trim f = f"
proof -
  assume "f \<in> set fallbacks"
  then have sh: "hd f = cu CHR ''{'' \<and> last f = cu CHR ''}'' \<and> 2 \<le> length f"
    using fallback0_shape fallback1_shape fallback2_shape fallback3_shape fallback4_shape
    by (auto simp: fallbacks_def)
  then have ne: "f \<noteq> []" by auto
  from sh have "\<not> is_js_ws (hd f)" "\<not> is_js_ws (last f)" by (simp_all add: is_js_ws_def)
  with sh ne show ?thesis by (simp add: match_braces_whole trim_id)
qed

lemma parse_fallback0: "JSON_parse fallback0 = Inr (json_of_response fallback_response0)"
  by (simp add: fallback0_def fallback_response0_def json_of_response_def json_of_choice_def
      choice_object_def str_def JSON_parse_def is_json_ws_def is_digit_def parse_value_token_def
      parse_key_token_def)

lemma parse_fallback1: "JSON_parse fallback1 = Inr (json_of_response fallback_response1)"
  by (simp add: fallback1_def fallback_response1_def json_of_response_def json_of_choice_def
      choice_object_def str_def JSON_parse_def is_json_ws_def is_digit_def parse_value_token_def
      parse_key_token_def)

lemma parse_fallback2: "JSON_parse fallback2 = Inr (json_of_response fallback_response2)"
  by (simp add: fallback2_def fallback_response2_def json_of_response_def json_of_choice_def
      choice_object_def str_def JSON_parse_def is_json_ws_def is_digit_def parse_value_token_def
      parse_key_token_def)

lemma parse_fallback3: "JSON_parse fallback3 = Inr (json_of_response fallback_response3)"
  by (simp add: fallback3_def fallback_response3_def json_of_response_def json_of_choice_def
      choice_object_def str_def JSON_parse_def is_json_ws_def is_digit_def parse_value_token_def
      parse_key_token_def)

lemma parse_fallback4: "JSON_parse fallback4 = Inr (json_of_response fallback_response4)"
  by (simp add: fallback4_def fallback_response4_def json_of_response_def json_of_choice_def
      choice_object_def str_def JSON_parse_def is_json_ws_def is_digit_def parse_value_token_def
      parse_key_token_def)

lemma parse_fallbacks:
  "i < 5 \<Longrightarrow> JSON_parse (fallbacks ! i) = Inr (json_of_response (fallback_responses ! i))"
proof -
  assume "i < 5"
  then consider "i = 0" | "i = 1" | "i = 2" | "i = 3" | "i = 4" by linarith
  then show ?thesis
    by cases
      (simp_all add: fallbacks_def fallback_responses_def parse_fallback0 parse_fallback1
        parse_fallback2 parse_fallback3 parse_fallback4)
qed

lemma as_GameChoice_json [simp]: "as_GameChoice (json_of_choice c) = Some c"
  by (simp add: as_GameChoice_def json_of_choice_def choice_object_def as_string_def)

lemma as_AIResponse_json [simp]: "as_AIResponse (json_of_response r) = Some r"
proof -
  have "map (\<lambda>c. the (as_GameChoice c)) (map json_of_choice (choices r)) = choices r"
    by (induction "choices r") (simp_all add: map_idI)
  then show ?thesis
    by (simp add: as_AIResponse_def json_of_response_def list_all_iff)
qed

lemma half_gaps:
  "floorlog 2 0 = 0" "floorlog 2 1 = 1" "floorlog 2 (Suc 0) = 1" "floorlog 2 2 = 2"
  "floorlog 2 3 = 2" "floorlog 2 4 = 3"
  by (simp_all add: compute_floorlog)

lemma rounds_to_at_least_upto_5:
  "rounds_to_at_least x 1 \<longleftrightarrow> 1 - 1 / 2 ^ 54 \<le> x"
  "rounds_to_at_least x 2 \<longleftrightarrow> 2 - 1 / 2 ^ 53 \<le> x"
  "rounds_to_at_least x 3 \<longleftrightarrow> 3 - 1 / 2 ^ 52 \<le> x"
  "rounds_to_at_least x 4 \<longleftrightarrow> 4 - 1 / 2 ^ 52 \<le> x"
  "rounds_to_at_least x 5 \<longleftrightarrow> 5 - 1 / 2 ^ 51 \<le> x"
  by (simp_all add: rounds_to_at_least_def half_gaps)

lemma floor_of_rounded_5:
  "floor_of_rounded x 5 =
     (if 5 - 1 / 2 ^ 51 \<le> x then 5
      else if 4 - 1 / 2 ^ 52 \<le> x then 4
      else if 3 - 1 / 2 ^ 52 \<le> x then 3
      else if 2 - 1 / 2 ^ 53 \<le> x then 2
      else if 1 - 1 / 2 ^ 54 \<le> x then 1 else 0)"
proof -
  have "floor_of_rounded x 5 =
     (if rounds_to_at_least x 5 then 5
      else if rounds_to_at_least x 4 then 4
      else if rounds_to_at_least x 3 then 3
      else if rounds_to_at_least x 2 then 2
      else if rounds_to_at_least x 1 then 1 else 0)"
    by (simp add: eval_nat_numeral)
  then show ?thesis by (simp only: rounds_to_at_least_upto_5)
qed

lemma length_fallbacks: "length fallbacks = 5"
  by (simp add: fallbacks_def)

lemma random_fallback:
  assumes "is_random u"
  shows "random_index u (length fallbacks) < 5"
    and "getFallbackResponse u = Some (JString (fallbacks ! random_index u (length fallbacks)))"
proof -
  have len: "length fallbacks = 5" by (simp add: fallbacks_def)
  have "u * 5 \<le> 5 - 5 / 2 ^ 53" using assms by (simp add: is_random_def)
  moreover have "(5::real) - 5 / 2 ^ 53 < 5 - 1 / 2 ^ 51" by simp
  ultimately have "\<not> 5 - 1 / 2 ^ 51 \<le> u * 5" by linarith
  then have "floor_of_rounded (u * 5) 5 < 5" by (simp add: floor_of_rounded_5)
  then show a: "random_index u (length fallbacks) < 5"
    by (simp add: random_index_def len)
  then show "getFallbackResponse u = Some (JString (fallbacks ! random_index u (length fallbacks)))"
    by (simp only: getFallbackResponse_def Let_def len if_True)
qed

lemma random_index_0:
  "is_random 0" "random_index 0 (length fallbacks) = 0" "random_index 0 5 = 0"
  by (simp_all add: is_random_def random_index_def length_fallbacks floor_of_rounded_5)

text \<open>
  The binary64 number nearest to 0.6 is \<open>5404319552844595 / 2 ^ 53\<close>, below 0.6; five times
  it is below 3, and rounds to 3.
\<close>

lemma random_index_06:
  "is_random (5404319552844595 / 2 ^ 53)"
  "random_index (5404319552844595 / 2 ^ 53) (length fallbacks) = 3"
  "random_index (5404319552844595 / 2 ^ 53) 5 = 3"
  "nat \<lfloor>(5404319552844595 / 2 ^ 53 :: real) * 5\<rfloor> = 2"
  by (simp_all add: is_random_def random_index_def length_fallbacks floor_of_rounded_5)

lemma toString_digit: "n < 4 \<Longrightarrow> length (toString (n + 1)) = 1"
  by (simp add: toString_lt10)

lemma fallback_choices_length: "i < 5 \<Longrightarrow> length (choices (fallback_responses ! i)) = 4"
proof -
  assume "i < 5"
  then consider "i = 0" | "i = 1" | "i = 2" | "i = 3" | "i = 4" by linarith
  then show ?thesis
    by cases
      (simp_all add: fallback_responses_def fallback_response0_def fallback_response1_def
        fallback_response2_def fallback_response3_def fallback_response4_def)
qed

lemma choices_of_json_of_response [simp]:
  "choices_of (json_of_response r) = Some (map json_of_choice (choices r))"
  by (simp add: choices_of_def json_of_response_def)

lemma catch_fallback_choices:
  assumes u: "is_random u"
      and r: "\<And>out. r = Inr out \<Longrightarrow> \<exists>vs. choices_of out = Some vs \<and> length vs = 4"
  shows "\<exists>v vs. catch_fallback r u = Inr v \<and> choices_of v = Some vs \<and> length vs = 4"
proof (cases r)
  case (Inr out)
  then show ?thesis using r by (simp add: catch_fallback_def)
next
  case (Inl e)
  let ?i = "random_index u (length fallbacks)"
  have i: "?i < 5" and g: "getFallbackResponse u = Some (JString (fallbacks ! ?i))"
    using random_fallback [OF u] by simp_all
  have "catch_fallback r u = Inr (json_of_response (fallback_responses ! ?i))"
    using Inl g parse_fallbacks [OF i] by (simp add: catch_fallback_def)
  then show ?thesis using fallback_choices_length [OF i] by simp
qed


subsection \<open>The repairs on typed entries\<close>

lemma valid_choice_typed:
  assumes "choice_fields c = Some (i, t)"
  shows "valid_choice c n = Inr (repaired_choice i t n)"
proof -
  from assms obtain kvs where c: "c = JObject kvs"
    and i: "string_field (lookup kvs (str ''id'')) = Some i"
    and t: "string_field (lookup kvs (str ''text'')) = Some t"
    by (auto simp: choice_fields_def split: json.splits option.splits)
  have ts: "toString (n + 1) \<noteq> []" by simp
  have o: "str ''Option '' @ toString (n + 1) \<noteq> []" by (simp add: str_def)
  have te: "or_else (lookup kvs (str ''text'')) (JString (str ''Option '' @ toString (n + 1))) =
            JString (case t of
                       None \<Rightarrow> str ''Option '' @ toString (n + 1)
                     | Some x \<Rightarrow> if x = [] then str ''Option '' @ toString (n + 1) else x)"
    using t by (auto simp: string_field_def or_else_def split: option.splits json.splits)
  have ie: "or_else (lookup kvs (str ''id'')) (JString (toString (n + 1))) = JString (repaired_id i n)"
    using i by (auto simp: string_field_def or_else_def repaired_id_def split: option.splits json.splits)
  show ?thesis
    unfolding c valid_choice_def get_prop.simps sum.case te ie truncate_over_string_35
    by (simp add: repaired_choice_def repaired_text_def Let_def)
qed

lemma normalize_string_story:
  assumes "lookup kvs (str ''story'') = Some (JString s)" and "s \<noteq> []"
      and "lookup kvs (str ''choices'') = Some (JArray cs)"
  shows "normalize_response (JObject kvs) =
           (case map_choices 0 (ensure_four_choices cs) of
              Inl e \<Rightarrow> Inl e
            | Inr vs \<Rightarrow>
                Inr (JObject [(str ''story'', JString (repaired_story s)),
                              (str ''choices'', JArray vs)]))"
proof -
  have "truthy (JString s)" using assms(2) by simp
  from normalize_object [OF assms(1) this assms(3)] show ?thesis
    by (simp only: truncate_over_string_400 repaired_story_def sum.case)
qed

lemma normalize_typed:
  assumes "lookup kvs (str ''story'') = Some (JString s)" and "s \<noteq> []"
      and "lookup kvs (str ''choices'') = Some (JArray cs)"
      and "\<forall>k. k < 4 \<longrightarrow> choice_fields (ensure_four_choices cs ! k) \<noteq> None"
  shows "normalize_response (JObject kvs) =
           Inr (JObject
                  [(str ''story'', JString (repaired_story s)),
                   (str ''choices'',
                    JArray (map (\<lambda>k. case choice_fields (ensure_four_choices cs ! k) of
                                        Some (i, t) \<Rightarrow> repaired_choice i t k
                                      | None \<Rightarrow> JNull) [0..<4]))])"
proof -
  let ?xs = "ensure_four_choices cs"
  let ?f = "\<lambda>k. case choice_fields (?xs ! k) of Some (i, t) \<Rightarrow> repaired_choice i t k | None \<Rightarrow> JNull"
  have len: "length ?xs = 4" by (rule ensure_four_choices_length)
  have "map_choices 0 ?xs = Inr (map ?f [0..<length ?xs])"
  proof (rule map_choices_all)
    fix k assume "k < length ?xs"
    then have "k < 4" using len by simp
    with assms(4) obtain i t where it: "choice_fields (?xs ! k) = Some (i, t)" by fastforce
    from valid_choice_typed [OF it, of k] show "valid_choice (?xs ! k) (0 + k) = Inr (?f k)"
      by (simp add: it)
  qed
  then have "map_choices 0 ?xs = Inr (map ?f [0..<4])" by (simp only: len)
  with normalize_string_story [OF assms(1-3)] show ?thesis by (simp only: sum.case)
qed

subsection \<open>The service when the request fails\<close>

lemma choice_fields_json_of_choice [simp]:
  "choice_fields (json_of_choice c) = Some (Some (choice_id c), Some (choice_text c))"
  by (simp add: choice_fields_def json_of_choice_def choice_object_def string_field_def)

lemma repaired_choice_valid:
  "choice_id c \<noteq> [] \<Longrightarrow> choice_text c \<noteq> [] \<Longrightarrow> length (choice_text c) \<le> 35 \<Longrightarrow>
   repaired_choice (Some (choice_id c)) (Some (choice_text c)) k = json_of_choice c"
  by (simp add: repaired_choice_def repaired_id_def repaired_text_def json_of_choice_def Let_def)

text \<open>A payload of the declared type that needs no repair is returned as it is.\<close>

lemma normalize_valid_response:
  assumes v: "TurnPayload_valid r"
      and ne: "list_all (\<lambda>c. choice_id c \<noteq> [] \<and> choice_text c \<noteq> []) (choices r)"
  shows "normalize_response (json_of_response r) = Inr (json_of_response r)"
proof -
  let ?cs = "map json_of_choice (choices r)"
  have len: "length (choices r) = 4" and st: "story r \<noteq> []" "length (story r) \<le> 400"
    and tx: "list_all (\<lambda>c. length (choice_text c) \<le> 35) (choices r)"
    using v by (simp_all add: TurnPayload_valid_def)
  have e4: "ensure_four_choices ?cs = ?cs"
    using len by (simp add: ensure_four_choices_def)
  have typed: "\<forall>k. k < 4 \<longrightarrow> choice_fields (ensure_four_choices ?cs ! k) \<noteq> None"
    using len by (simp add: e4)
  have each: "(case choice_fields (ensure_four_choices ?cs ! k) of
                Some (i, t) \<Rightarrow> repaired_choice i t k | None \<Rightarrow> JNull) = ?cs ! k"
    if "k < 4" for k
  proof -
    have k: "k < length (choices r)" using that len by simp
    then have m: "choices r ! k \<in> set (choices r)" by simp
    have "choice_id (choices r ! k) \<noteq> []" "choice_text (choices r ! k) \<noteq> []"
      using ne m by (auto simp: list_all_iff)
    moreover have "length (choice_text (choices r ! k)) \<le> 35"
      using tx m by (auto simp: list_all_iff)
    ultimately show ?thesis
      using k by (simp add: e4 repaired_choice_valid)
  qed
  have "map (\<lambda>k. case choice_fields (ensure_four_choices ?cs ! k) of
                   Some (i, t) \<Rightarrow> repaired_choice i t k | None \<Rightarrow> JNull) [0..<4] =
        map (\<lambda>k. ?cs ! k) [0..<4]"
    using each by simp
  also have "\<dots> = map (\<lambda>k. ?cs ! k) [0..<length ?cs]" using len by simp
  also have "\<dots> = ?cs" by (rule map_nth)
  finally have m: "map (\<lambda>k. case choice_fields (ensure_four_choices ?cs ! k) of
                   Some (i, t) \<Rightarrow> repaired_choice i t k | None \<Rightarrow> JNull) [0..<4] = ?cs" .
  have s: "repaired_story (story r) = story r"
    using st by (simp add: repaired_story_def)
  have l1: "lookup [(str ''story'', JString (story r)), (str ''choices'', JArray ?cs)] (str ''story'')
              = Some (JString (story r))"
    by simp
  have l2: "lookup [(str ''story'', JString (story r)), (str ''choices'', JArray ?cs)] (str ''choices'')
              = Some (JArray ?cs)"
    by simp
  from normalize_typed [OF l1 st(1) l2 typed] show ?thesis
    by (simp only: m s json_of_response_def)
qed

lemma fallback_responses_valid:
  "i < 5 \<Longrightarrow>
   TurnPayload_valid (fallback_responses ! i) \<and>
   list_all (\<lambda>c. choice_id c \<noteq> [] \<and> choice_text c \<noteq> []) (choices (fallback_responses ! i))"
proof -
  assume "i < 5"
  then consider "i = 0" | "i = 1" | "i = 2" | "i = 3" | "i = 4" by linarith
  then show ?thesis
    by cases
      (simp_all add: fallback_responses_def TurnPayload_valid_def fallback_response0_def
        fallback_response1_def fallback_response2_def fallback_response3_def
        fallback_response4_def str_def)
qed


lemma fallbacks_nth_mem:
  assumes "i < 5"
  shows "fallbacks ! i \<in> set fallbacks"
proof -
  have "length fallbacks = 5" by (simp add: fallbacks_def)
  with assms show ?thesis using nth_mem [of i fallbacks] by simp
qed


lemma request_failed_try: "request_failed out \<Longrightarrow> \<exists>e. makeAPIRequest_try out = Inl e"
  by (auto simp: request_failed_def makeAPIRequest_try_def split: http_outcome.splits sum.splits)

lemma makeAPIRequest_on_failure:
  assumes "request_failed out" and "is_random u"
  shows "makeAPIRequest out u = Inr (Some (JString (fallbacks ! random_index u (length fallbacks))))"
proof -
  from request_failed_try [OF assms(1)] obtain e where "makeAPIRequest_try out = Inl e" ..
  then show ?thesis
    using random_fallback(2) [OF assms(2)] by (simp add: makeAPIRequest_def)
qed

lemma makeAPIRequest_returns: "\<exists>v. makeAPIRequest out u = Inr v"
  by (simp add: makeAPIRequest_def split: sum.splits)


lemma catch_fallback_returns:
  assumes "is_random u"
  shows "\<exists>v. catch_fallback r u = Inr v"
proof (cases r)
  case (Inr v)
  then show ?thesis by (simp add: catch_fallback_def)
next
  case (Inl e)
  then show ?thesis
    using random_fallback [OF assms] parse_fallbacks [OF random_fallback(1) [OF assms]]
    by (simp add: catch_fallback_def)
qed

lemma connection_reply_ok_fallback:
  assumes "i < 5"
  shows "connection_reply_ok (json_of_response (fallback_responses ! i)) = Inr True"
proof -
  have "story (fallback_responses ! i) \<noteq> []"
    using fallback_responses_valid [OF assms] by (simp add: TurnPayload_valid_def)
  then show ?thesis
    using fallback_choices_length [OF assms]
    by (simp add: connection_reply_ok_def json_of_response_def ToBoolean_def strict_eq_4_def
        number_eq_4_def)
qed

lemma testConnection_on_failure:
  assumes "request_failed out" and "is_random u"
  shows "testConnection out u = Inr True"
proof -
  let ?i = "random_index u (length fallbacks)"
  have i: "?i < 5" using random_fallback(1) [OF assms(2)] .
  have m: "match_braces (fallbacks ! ?i) = Some (fallbacks ! ?i)"
    using fallbacks_match [OF fallbacks_nth_mem [OF i]] by simp
  show ?thesis
    by (simp add: testConnection_def testConnection_try_def makeAPIRequest_on_failure [OF assms] m
        parse_fallbacks [OF i] connection_reply_ok_fallback [OF i])
qed

lemma request_failed_rejected [simp]: "request_failed (FetchRejected e)"
  by (simp add: request_failed_def)

lemma fallbacks_nth [simp]:
  "fallbacks ! 0 = fallback0" "fallbacks ! 1 = fallback1" "fallbacks ! 2 = fallback2"
  "fallbacks ! 3 = fallback3" "fallbacks ! 4 = fallback4" "length fallbacks = 5"
  by (simp_all add: fallbacks_def)

subsection \<open>Turns of the component\<close>

lemma push_history_length: "length (push_history h e) = min (length h) 10 + 1"
  by (simp add: push_history_def)

lemma foldl_push_history_length:
  "length h \<le> 11 \<Longrightarrow> length (foldl push_history h es) = min (length h + length es) 11"
proof (induction es arbitrary: h)
  case Nil
  then show ?case by simp
next
  case (Cons e es)
  have "length (push_history h e) \<le> 11" by (simp add: push_history_length)
  from Cons.IH [OF this] show ?case
    using Cons.prems by (simp add: push_history_length)
qed

lemma settle_new_generation:
  "settle (length (pending s)) (Generated r) (generateStoryResponse a f c s) =
     generateStoryResponse_resume a f c r ((generateStoryResponse a f c s)\<lparr>pending := pending s\<rparr>)"
  by (simp add: settle_def generateStoryResponse_def Let_def setGameState_def continue_task_def)

lemma resume_history:
  "gameHistory (gameState (generateStoryResponse_resume a False c (Inr r) s)) =
     push_history (gameHistory (gameState s)) (historyEntry a (story r))"
  by (simp add: generateStoryResponse_resume_def Let_def addMessage_def addToGameHistory_def
      setGameState_def)

lemma completeTurn_history:
  "gameHistory (gameState (completeTurn a r s)) =
     push_history (gameHistory (gameState s)) (historyEntry a (story r))"
  unfolding completeTurn_def settle_new_generation resume_history
  by (simp add: generateStoryResponse_def Let_def setGameState_def)

lemma play_history:
  "gameHistory (gameState (play s turns)) =
     foldl push_history (gameHistory (gameState s))
       (map (\<lambda>(a, r). historyEntry a (story r)) turns)"
  by (induction s turns rule: play.induct) (simp_all add: completeTurn_history)


lemma resume_rejected:
  "generateStoryResponse_resume a f c (Inl m) s =
     s\<lparr>apiError := Some (str ''Failed to generate response: '' @ m),
       gameState := (gameState s)
         \<lparr>messages := messages (gameState s) @
            [\<lparr>msg_type = ErrorMessage,
              content = str ''NARRATIVE ENGINE ERROR: Unable to process request. The AI narrator is experiencing difficulties.''\<rparr>],
          isWaitingForResponse := False,
          currentChoices := recovery_choices\<rparr>\<rparr>"
  by (simp add: generateStoryResponse_resume_def Let_def addMessage_def setGameState_def)


section \<open>The claims about the repair of a parsed response\<close>

lemma normalize_response_choices:
  assumes "normalize_response p = Inr out"
  shows "\<exists>vs. choices_of out = Some vs \<and> length vs = 4"
proof -
  from assms obtain story' cs vs where
    m: "map_choices 0 (ensure_four_choices cs) = Inr vs"
    and o: "out = JObject [(str ''story'', story'), (str ''choices'', JArray vs)]"
    by (auto simp: normalize_response_def split: sum.splits option.splits json.splits if_splits)
  from map_choices_length [OF m] have "length vs = 4"
    by (simp add: ensure_four_choices_length)
  then show ?thesis using o by (simp add: choices_of_def)
qed

lemma try_choices:
  assumes "generateStoryResponse_try r = Inr out"
  shows "\<exists>vs. choices_of out = Some vs \<and> length vs = 4"
proof -
  from assms obtain p where "normalize_response p = Inr out"
    by (auto simp: generateStoryResponse_try_def split: option.splits json.splits sum.splits)
  then show ?thesis by (rule normalize_response_choices)
qed











text \<open>
  C6. For a story string \<open>s\<close> the length repair never throws and returns
  \<open>repaired_story s\<close>: at most 400 code units long; the first 380 code units followed by
  \<open>...\<close>, 383 in all, when \<open>s\<close> has more than 400; and \<open>s\<close> itself otherwise. For a payload
  whose story is the non-empty string \<open>s\<close> and whose choices are an array, the returned
  payload carries \<open>repaired_story s\<close>, and \<open>normalize_response\<close> throws only where the
  per-choice repair does.
\<close>

theorem story_length_repair:
  "truncate_over (JString s) 400 380 = Inr (JString (repaired_story s)) \<and>
   length (repaired_story s) \<le> 400 \<and>
   (400 < length s \<longrightarrow>
      repaired_story s = take 380 s @ str ''...'' \<and> length (repaired_story s) = 383) \<and>
   (length s \<le> 400 \<longrightarrow> repaired_story s = s) \<and>
   (\<forall>kvs cs.
      lookup kvs (str ''story'') = Some (JString s) \<and> s \<noteq> [] \<and>
      lookup kvs (str ''choices'') = Some (JArray cs) \<longrightarrow>
      normalize_response (JObject kvs) =
        (case map_choices 0 (ensure_four_choices cs) of
           Inl e \<Rightarrow> Inl e
         | Inr vs \<Rightarrow>
             Inr (JObject [(str ''story'', JString (repaired_story s)),
                           (str ''choices'', JArray vs)])))"
proof -
  have a: "truncate_over (JString s) 400 380 = Inr (JString (repaired_story s))"
    by (simp add: truncate_over_string_400 repaired_story_def)
  have b: "length (repaired_story s) \<le> 400"
    by (simp add: repaired_story_def)
  have c: "400 < length s \<longrightarrow>
      repaired_story s = take 380 s @ str ''...'' \<and> length (repaired_story s) = 383"
    by (simp add: repaired_story_def)
  have d: "length s \<le> 400 \<longrightarrow> repaired_story s = s"
    by (simp add: repaired_story_def)
  have e: "normalize_response (JObject kvs) =
        (case map_choices 0 (ensure_four_choices cs) of
           Inl e \<Rightarrow> Inl e
         | Inr vs \<Rightarrow>
             Inr (JObject [(str ''story'', JString (repaired_story s)),
                           (str ''choices'', JArray vs)]))"
    if "lookup kvs (str ''story'') = Some (JString s)" "s \<noteq> []"
       "lookup kvs (str ''choices'') = Some (JArray cs)" for kvs cs
    using that by (rule normalize_string_story)
  then have e': "\<forall>kvs cs.
      lookup kvs (str ''story'') = Some (JString s) \<and> s \<noteq> [] \<and>
      lookup kvs (str ''choices'') = Some (JArray cs) \<longrightarrow>
      normalize_response (JObject kvs) =
        (case map_choices 0 (ensure_four_choices cs) of
           Inl e \<Rightarrow> Inl e
         | Inr vs \<Rightarrow>
             Inr (JObject [(str ''story'', JString (repaired_story s)),
                           (str ''choices'', JArray vs)]))"
    by blast
  show ?thesis
    by (intro conjI) (rule a, rule b, rule c, rule d, rule e')
qed

theorem story_length_repair_witness:
  "400 < length (replicate 401 (cu CHR ''a'')) \<and>
   truncate_over (JString (replicate 401 (cu CHR ''a''))) 400 380
     = Inr (JString (replicate 380 (cu CHR ''a'') @ str ''...'')) \<and>
   length (repaired_story (replicate 401 (cu CHR ''a''))) = 383 \<and>
   length (str ''A'') \<le> 400 \<and>
   truncate_over (JString (str ''A'')) 400 380 = Inr (JString (str ''A''))"
proof -
  note t = story_length_repair [of "replicate 401 (cu CHR ''a'')"]
  note t' = story_length_repair [of "str ''A''"]
  have l: "400 < length (replicate 401 (cu CHR ''a''))" by simp
  from t l have r: "repaired_story (replicate 401 (cu CHR ''a'')) =
      take 380 (replicate 401 (cu CHR ''a'')) @ str ''...''"
    and n: "length (repaired_story (replicate 401 (cu CHR ''a''))) = 383"
    by blast+
  from t have "truncate_over (JString (replicate 401 (cu CHR ''a''))) 400 380
      = Inr (JString (repaired_story (replicate 401 (cu CHR ''a''))))"
    by blast
  then have "truncate_over (JString (replicate 401 (cu CHR ''a''))) 400 380
     = Inr (JString (take 380 (replicate 401 (cu CHR ''a'')) @ str ''...''))"
    by (simp only: r)
  then have a: "truncate_over (JString (replicate 401 (cu CHR ''a''))) 400 380
     = Inr (JString (replicate 380 (cu CHR ''a'') @ str ''...''))"
    by simp
  have l': "length (str ''A'') \<le> 400" by simp
  from t' l' have r': "repaired_story (str ''A'') = str ''A''" by blast
  from t' have "truncate_over (JString (str ''A'')) 400 380 = Inr (JString (repaired_story (str ''A'')))"
    by blast
  then have a': "truncate_over (JString (str ''A'')) 400 380 = Inr (JString (str ''A''))"
    by (simp only: r')
  show ?thesis using l a n l' a' by blast
qed

text \<open>
  C7. For a choice entry that is an object whose \<open>id\<close> and \<open>text\<close> are strings or missing,
  at position \<open>n\<close> (from 0), the per-choice repair never throws and returns
  \<open>repaired_choice\<close>: a missing id becomes the 1-based position as a string; among the four
  final choices a missing or empty text becomes \<open>Option N\<close>, with \<open>N\<close> the 1-based
  position; a text of more than 35 code units becomes its first 32 followed by \<open>...\<close>,
  35 in all; a non-empty text of at most 35 is kept. A payload with a non-empty string
  story whose four final entries are such objects is returned with exactly these four
  repaired choices.
\<close>

theorem choice_repair:
  assumes "choice_fields c = Some (i, t)"
  shows "valid_choice c n = Inr (repaired_choice i t n) \<and>
         repaired_choice i t n = choice_object (JString (repaired_id i n)) (JString (repaired_text t n)) \<and>
         (i = None \<longrightarrow> repaired_id i n = toString (n + 1)) \<and>
         (n < 4 \<and> (t = None \<or> t = Some []) \<longrightarrow>
            repaired_text t n = str ''Option '' @ toString (n + 1)) \<and>
         (\<forall>x. t = Some x \<and> 35 < length x \<longrightarrow>
            repaired_text t n = take 32 x @ str ''...'' \<and> length (repaired_text t n) = 35) \<and>
         (\<forall>x. t = Some x \<and> x \<noteq> [] \<and> length x \<le> 35 \<longrightarrow> repaired_text t n = x) \<and>
         (\<forall>kvs s cs.
            lookup kvs (str ''story'') = Some (JString s) \<and> s \<noteq> [] \<and>
            lookup kvs (str ''choices'') = Some (JArray cs) \<and>
            (\<forall>k. k < 4 \<longrightarrow> choice_fields (ensure_four_choices cs ! k) \<noteq> None) \<longrightarrow>
            normalize_response (JObject kvs) =
              Inr (JObject
                     [(str ''story'', JString (repaired_story s)),
                      (str ''choices'',
                       JArray (map (\<lambda>k. case choice_fields (ensure_four_choices cs ! k) of
                                           Some (i, t) \<Rightarrow> repaired_choice i t k
                                         | None \<Rightarrow> JNull) [0..<4]))]))"
proof -
  have a: "valid_choice c n = Inr (repaired_choice i t n)"
    using assms by (rule valid_choice_typed)
  have b: "repaired_choice i t n = choice_object (JString (repaired_id i n)) (JString (repaired_text t n))"
    by (simp add: repaired_choice_def)
  have c: "i = None \<longrightarrow> repaired_id i n = toString (n + 1)"
    by (simp add: repaired_id_def)
  have d: "n < 4 \<and> (t = None \<or> t = Some []) \<longrightarrow>
            repaired_text t n = str ''Option '' @ toString (n + 1)"
    using toString_digit [of n] by (auto simp: repaired_text_def Let_def)
  have e: "\<forall>x. t = Some x \<and> 35 < length x \<longrightarrow>
            repaired_text t n = take 32 x @ str ''...'' \<and> length (repaired_text t n) = 35"
    by (auto simp: repaired_text_def Let_def)
  have f: "\<forall>x. t = Some x \<and> x \<noteq> [] \<and> length x \<le> 35 \<longrightarrow> repaired_text t n = x"
    by (auto simp: repaired_text_def Let_def)
  have g: "\<forall>kvs s cs.
            lookup kvs (str ''story'') = Some (JString s) \<and> s \<noteq> [] \<and>
            lookup kvs (str ''choices'') = Some (JArray cs) \<and>
            (\<forall>k. k < 4 \<longrightarrow> choice_fields (ensure_four_choices cs ! k) \<noteq> None) \<longrightarrow>
            normalize_response (JObject kvs) =
              Inr (JObject
                     [(str ''story'', JString (repaired_story s)),
                      (str ''choices'',
                       JArray (map (\<lambda>k. case choice_fields (ensure_four_choices cs ! k) of
                                           Some (i, t) \<Rightarrow> repaired_choice i t k
                                         | None \<Rightarrow> JNull) [0..<4]))])"
    using normalize_typed by blast
  show ?thesis
    by (intro conjI) (rule a, rule b, rule c, rule d, rule e, rule f, rule g)
qed

theorem choice_repair_witness:
  "choice_fields (JObject [(str ''text'', JString (replicate 36 (cu CHR ''a'')))])
     = Some (None, Some (replicate 36 (cu CHR ''a''))) \<and>
   35 < length (replicate 36 (cu CHR ''a'')) \<and>
   valid_choice (JObject [(str ''text'', JString (replicate 36 (cu CHR ''a'')))]) 2
     = Inr (choice_object (JString (toString (2 + 1)))
              (JString (take 32 (replicate 36 (cu CHR ''a'')) @ str ''...'')))"
proof -
  have h: "choice_fields (JObject [(str ''text'', JString (replicate 36 (cu CHR ''a'')))])
     = Some (None, Some (replicate 36 (cu CHR ''a'')))"
    by (simp add: choice_fields_def string_field_def lookup_def str_def)
  have l: "35 < length (replicate 36 (cu CHR ''a''))" by simp
  note t = choice_repair [OF h, of 2]
  from t have v: "valid_choice (JObject [(str ''text'', JString (replicate 36 (cu CHR ''a'')))]) 2
      = Inr (repaired_choice None (Some (replicate 36 (cu CHR ''a''))) 2)"
    by (rule conjunct1)
  from t have r: "repaired_choice None (Some (replicate 36 (cu CHR ''a''))) 2 =
      choice_object (JString (repaired_id None 2))
        (JString (repaired_text (Some (replicate 36 (cu CHR ''a''))) 2))"
    by blast
  from t have i: "repaired_id None 2 = toString (2 + 1)" by blast
  from t l have x: "repaired_text (Some (replicate 36 (cu CHR ''a''))) 2 =
      take 32 (replicate 36 (cu CHR ''a'')) @ str ''...''"
    by blast
  show ?thesis
    using h l v by (simp only: r i x simp_thms)
qed

section \<open>The claims about the fallback pool and the request\<close>

text \<open>
  C9. The pool of \<open>getFallbackResponse\<close> has five texts (at least five), and each is valid
  as it stands: it parses to a payload of the declared type with a story that is not empty
  and has at most 400 code units and exactly four choices with texts of at most 35, and
  the validation and repair of \<open>generateStoryResponse\<close> returns it unchanged.
\<close>

theorem fallback_pool_valid: "5 \<le> length fallbacks \<and> list_all pool_entry_valid fallbacks"
proof -
  have v: "pool_entry_valid (fallbacks ! i)" if "i < 5" for i
    using parse_fallbacks [OF that] fallback_responses_valid [OF that]
    by (simp add: pool_entry_valid_def normalize_valid_response)
  have "pool_entry_valid fallback0" "pool_entry_valid fallback1" "pool_entry_valid fallback2"
    "pool_entry_valid fallback3" "pool_entry_valid fallback4"
    using v [of 0] v [of 1] v [of 2] v [of 3] v [of 4] by (simp_all add: fallbacks_def)
  then show ?thesis by (simp add: fallbacks_def)
qed

text \<open>
  C1, as the code has it. \<open>makeAPIRequest\<close> never fails: its \<open>catch\<close> block returns a text
  of the fallback pool for whatever the \<open>try\<close> block throws. When the request failed (the
  transport failed, the status is not a success, or the response has no text at the
  expected place) and \<open>u\<close> is what \<open>Math.random()\<close> returned, the call returns the text of
  the pool at the index \<open>Math.floor(u * 5)\<close>, one of the five; the status and detail of the
  failure are not returned.
\<close>

theorem makeAPIRequest_substitutes_fallback:
  assumes "request_failed out" and "is_random u"
  shows "makeAPIRequest out u = Inr (Some (JString (fallbacks ! random_index u (length fallbacks)))) \<and>
         random_index u (length fallbacks) < length fallbacks \<and>
         (\<forall>out' u'. \<exists>v. makeAPIRequest out' u' = Inr v)"
  using makeAPIRequest_on_failure [OF assms] random_fallback(1) [OF assms(2)] makeAPIRequest_returns
  by simp

theorem makeAPIRequest_substitutes_fallback_witness:
  "request_failed (Response 503 (str ''Service Unavailable'') (str ''overloaded'')) \<and>
   is_random (5404319552844595 / 2 ^ 53) \<and>
   makeAPIRequest (Response 503 (str ''Service Unavailable'') (str ''overloaded''))
     (5404319552844595 / 2 ^ 53)
     = Inr (Some (JString fallback3))"
proof -
  have h: "request_failed (Response 503 (str ''Service Unavailable'') (str ''overloaded''))"
    by (simp add: request_failed_def response_ok_def)
  note r = random_index_06(1)
  from makeAPIRequest_substitutes_fallback [OF h r]
  have "makeAPIRequest (Response 503 (str ''Service Unavailable'') (str ''overloaded''))
          (5404319552844595 / 2 ^ 53)
          = Inr (Some (JString (fallbacks ! random_index (5404319552844595 / 2 ^ 53) (length fallbacks))))"
    by (rule conjunct1)
  then have "makeAPIRequest (Response 503 (str ''Service Unavailable'') (str ''overloaded''))
          (5404319552844595 / 2 ^ 53)
          = Inr (Some (JString fallback3))"
    by (simp only: random_index_06(2) fallbacks_nth(4))
  with h r show ?thesis by blast
qed

text \<open>
  C1 as stated fails: when \<open>fetch\<close> rejects, the call does not fail; it returns the first
  text of the pool (draw 0) as if it were the backend's text.
\<close>

theorem makeAPIRequest_counterexample:
  "request_failed (FetchRejected TypeError) \<and>
   makeAPIRequest (FetchRejected TypeError) 0 = Inr (Some (JString fallback0))"
proof -
  have "makeAPIRequest (FetchRejected TypeError) 0
          = Inr (Some (JString (fallbacks ! random_index 0 (length fallbacks))))"
    by (rule makeAPIRequest_on_failure) (simp_all add: random_index_0)
  then show ?thesis by (simp add: random_index_0(3))
qed

text \<open>
  C4 fails on the code: when \<open>fetch\<close> rejects (no backend reply at all), \<open>makeAPIRequest\<close>
  hands \<open>testConnection\<close> a fallback text, which parses to a payload with four choices, so
  the connection test answers \<open>true\<close>.
\<close>

theorem testConnection_true_on_transport_failure:
  "testConnection (FetchRejected TypeError) 0 = Inr True"
  by (rule testConnection_on_failure) (simp_all add: random_index_0)

section \<open>The claims about the component\<close>




text \<open>
  C3 fails on the code: \<open>addToGameHistory\<close> keeps the last ten entries and then appends
  the new one, so from the eleventh completed turn on the buffer holds eleven entries.
\<close>

theorem history_holds_eleven:
  "length (gameHistory (gameState
     (play initial (replicate 11 (str ''look around'', fallback_response0))))) = 11 \<and>
   length (gameHistory (gameState
     (play initial (replicate 25 (str ''look around'', fallback_response0))))) = 11"
proof -
  have "gameHistory (gameState initial) = []"
    by (simp add: initial_def initialGameState_def)
  then show ?thesis
    by (simp add: play_history foldl_push_history_length)
qed

text \<open>
  C8 fails on the code: \<open>handleUserInput\<close> returns at once while a response is awaited,
  but the callback of the timer that \<open>startGame\<close> sets calls \<open>generateStoryResponse\<close> with
  no such test. In the session from the mounted component in which a topic is entered, the
  game is started and a typed action is submitted before the timer fires, a response is
  awaited and one generation call is in flight; the timer then fires and starts the first
  turn all the same, and two generation calls are in flight.
\<close>

theorem start_timer_ignores_turn_guard:
  "isWaitingForResponse (gameState (run (mount initial) early_input)) \<and>
   in_flight (run (mount initial) early_input) = 1 \<and>
   in_flight (step (run (mount initial) early_input) (Settle 0 Fired)) = 2"
  by (simp add: run_def early_input_def mount_def getApiKeyStatus_invalid_def initial_def
      initialGameState_def startGame_def handleUserInput_def generateStoryResponse_def
      addMessage_def setGameState_def Let_def trim_def is_js_ws_def str_def in_flight_def
      settle_def continue_task_def)

text \<open>
  C10. When the choice clicked has the text \<open>Try again\<close> and the history is empty,
  \<open>handleChoice\<close> does not replay a recorded action: it falls through to its last lines, so
  the user message \<open>> Try again\<close> (the text behind the prompt mark every user message has)
  is appended to the transcript and \<open>generateStoryResponse\<close> is called with the literal
  \<open>Try again\<close> as the player's action, not as a first turn.
\<close>

theorem try_again_with_empty_history:
  assumes "choice_text c = str ''Try again''" and "gameHistory (gameState s) = []"
  shows "handleChoice answer c s =
           generateStoryResponse (str ''Try again'') False (apiError s)
             (addMessage User (str ''> Try again'') s) \<and>
         messages (gameState (handleChoice answer c s)) =
           messages (gameState s) @ [\<lparr>msg_type = User, content = str ''> Try again''\<rparr>] \<and>
         pending (handleChoice answer c s) =
           pending s @ [Generation (str ''Try again'') False (apiError s)] \<and>
         gameHistory (gameState (handleChoice answer c s)) = []"
proof -
  have u: "user_line (str ''Try again'') = str ''> Try again''"
    by (simp add: user_line_def str_def)
  have ne: "str ''Try again'' \<noteq> str ''Restart adventure''"
    "str ''Try again'' \<noteq> str ''Update API settings''"
    "str ''Try again'' \<noteq> str ''Continue with demo mode''"
    "str ''Try again'' \<noteq> str ''Check connection''"
    by (simp_all add: str_def)
  have a: "handleChoice answer c s =
           generateStoryResponse (str ''Try again'') False (apiError s)
             (addMessage User (str ''> Try again'') s)"
    using assms ne by (simp add: handleChoice_def u)
  show ?thesis
    unfolding a using assms(2)
    by (simp add: generateStoryResponse_def addMessage_def setGameState_def Let_def)
qed

theorem try_again_with_empty_history_witness:
  "choice_text \<lparr>choice_id = str ''1'', choice_text = str ''Try again''\<rparr> = str ''Try again'' \<and>
   gameHistory (gameState initial) = [] \<and>
   messages (gameState (handleChoice None \<lparr>choice_id = str ''1'', choice_text = str ''Try again''\<rparr> initial)) =
     [\<lparr>msg_type = User, content = str ''> Try again''\<rparr>] \<and>
   pending (handleChoice None \<lparr>choice_id = str ''1'', choice_text = str ''Try again''\<rparr> initial) =
     [Generation (str ''Try again'') False None]"
proof -
  have h1: "choice_text \<lparr>choice_id = str ''1'', choice_text = str ''Try again''\<rparr> = str ''Try again''"
    by simp
  have h2: "gameHistory (gameState initial) = []"
    by (simp add: initial_def initialGameState_def)
  have g: "messages (gameState initial) = []" "pending initial = []" "apiError initial = None"
    by (simp_all add: initial_def initialGameState_def)
  from try_again_with_empty_history [OF h1 h2, of None]
  have "messages (gameState (handleChoice None \<lparr>choice_id = str ''1'', choice_text = str ''Try again''\<rparr> initial)) =
          messages (gameState initial) @ [\<lparr>msg_type = User, content = str ''> Try again''\<rparr>]"
    and "pending (handleChoice None \<lparr>choice_id = str ''1'', choice_text = str ''Try again''\<rparr> initial) =
          pending initial @ [Generation (str ''Try again'') False (apiError initial)]"
    by blast+
  then show ?thesis using h1 h2 by (simp add: g)
qed

section \<open>Further properties\<close>

text \<open>
  The service's \<open>generateStoryResponse\<close> never rejects, and what it returns has exactly
  four choices, whatever the request came to: either the repaired payload of the reply or
  a parsed fallback.
\<close>

theorem service_returns_four_choices:
  assumes "is_random u2"
  shows "\<exists>v vs. aiService_generateStoryResponse out u1 u2 = Inr v \<and>
                choices_of v = Some vs \<and> length vs = 4"
  unfolding aiService_generateStoryResponse_def
proof (rule catch_fallback_choices [OF assms])
  fix v
  assume "(case makeAPIRequest out u1 of Inl e \<Rightarrow> Inl e
           | Inr response \<Rightarrow> generateStoryResponse_try response) = Inr v"
  then obtain r where "generateStoryResponse_try r = Inr v"
    by (auto split: sum.splits)
  then show "\<exists>vs. choices_of v = Some vs \<and> length vs = 4" by (rule try_choices)
qed

theorem service_returns_four_choices_witness:
  "is_random 0 \<and>
   (\<exists>v vs. aiService_generateStoryResponse (Response 404 (str ''Not Found'') []) 7 0 = Inr v \<and>
            choices_of v = Some vs \<and> length vs = 4)"
proof -
  note a = random_index_0(1)
  from service_returns_four_choices [OF a] a show ?thesis by blast
qed

text \<open>
  \<open>testConnection\<close> never raises, and it answers \<open>false\<close> when the text it got from
  \<open>makeAPIRequest\<close> holds no \<open>{...}\<close> or when what is between the braces does not parse.
\<close>

theorem testConnection_never_raises:
  "(\<exists>b. testConnection out u = Inr b) \<and>
   (\<forall>r. makeAPIRequest out u = Inr (Some (JString r)) \<and> match_braces r = None \<longrightarrow>
      testConnection out u = Inr False) \<and>
   (\<forall>r m e. makeAPIRequest out u = Inr (Some (JString r)) \<and> match_braces r = Some m \<and>
      JSON_parse m = Inl e \<longrightarrow> testConnection out u = Inr False)"
  by (auto simp: testConnection_def testConnection_try_def split: sum.splits)

theorem testConnection_never_raises_witness:
  \<open>makeAPIRequest
     (Response 200 (str ''OK'')
        (str ''{"candidates":[{"content":{"parts":[{"text":"hello"}]}}]}'')) 0
     = Inr (Some (JString (str ''hello''))) \<and>
   match_braces (str ''hello'') = None \<and>
   testConnection
     (Response 200 (str ''OK'')
        (str ''{"candidates":[{"content":{"parts":[{"text":"hello"}]}}]}'')) 0
     = Inr False\<close>
proof -
  have p: \<open>JSON_parse (str ''{"candidates":[{"content":{"parts":[{"text":"hello"}]}}]}'') =
      Inr (JObject [(str ''candidates'',
             JArray [JObject [(str ''content'',
               JObject [(str ''parts'',
                 JArray [JObject [(str ''text'', JString (str ''hello''))]])])]])])\<close>
    by (simp add: str_def JSON_parse_def is_json_ws_def is_digit_def parse_value_token_def
        parse_key_token_def)
  have m: \<open>makeAPIRequest
     (Response 200 (str ''OK'')
        (str ''{"candidates":[{"content":{"parts":[{"text":"hello"}]}}]}'')) 0
     = Inr (Some (JString (str ''hello'')))\<close>
    unfolding makeAPIRequest_def makeAPIRequest_try_def http_outcome.case p
    by (simp add: response_ok_def candidate_text_def opt_prop_def opt_index_def lookup_def
        ToBoolean_def str_def)
  have n: "match_braces (str ''hello'') = None"
    by (simp add: match_braces_def str_def)
  from testConnection_never_raises
    [of "Response 200 (str ''OK'') (str ''{\"candidates\":[{\"content\":{\"parts\":[{\"text\":\"hello\"}]}}]}'')" 0]
    m n
  show ?thesis by blast
qed

lemma foldl_push_history_latest:
  "foldl push_history [] es = drop (length es - 11) es"
proof (induction es rule: rev_induct)
  case Nil
  then show ?case by simp
next
  case (snoc e es)
  have "push_history (drop (length es - 11) es) e = drop (length es - 10) es @ [e]"
    by (simp add: push_history_def) (rule arg_cong [where f = "\<lambda>n. drop n es"], linarith)
  then show ?case using snoc by simp
qed

text \<open>
  The history keeps the latest eleven entries, oldest first: after any sequence of
  completed turns that are not the first, from an empty history, it is the last eleven of
  the entries of those turns, in their order.
\<close>

theorem history_keeps_latest_eleven:
  assumes "gameHistory (gameState s) = []"
  shows "gameHistory (gameState (play s turns)) =
           drop (length turns - 11) (map (\<lambda>(a, r). historyEntry a (story r)) turns)"
  using foldl_push_history_latest [of "map (\<lambda>(a, r). historyEntry a (story r)) turns"]
  by (simp add: play_history assms)

theorem history_keeps_latest_eleven_witness:
  "gameHistory (gameState initial) = [] \<and>
   gameHistory (gameState
     (play initial [(str ''look'', fallback_response0), (str ''wait'', fallback_response1)])) =
     [historyEntry (str ''look'') (story fallback_response0),
      historyEntry (str ''wait'') (story fallback_response1)]"
proof -
  have h: "gameHistory (gameState initial) = []"
    by (simp add: initial_def initialGameState_def)
  from history_keeps_latest_eleven
    [OF h, of "[(str ''look'', fallback_response0), (str ''wait'', fallback_response1)]"]
    h
  show ?thesis by simp
qed

text \<open>
  The guard at the player's side of a turn: while \<open>isWaitingForResponse\<close> is true,
  \<open>handleUserInput\<close> returns the state as it is (transcript, history and tasks in flight
  included), the choice buttons are not rendered, so no click reaches \<open>handleChoice\<close>, and
  the text input is disabled.
\<close>

theorem user_turn_guard:
  assumes "isWaitingForResponse (gameState s)"
  shows "handleUserInput s = s \<and> step s SubmitInput = s \<and>
         (\<forall>n answer. step s (ClickChoice n answer) = s) \<and>
         (\<forall>t. step s (TypeInput t) = s)"
  using assms by (simp add: handleUserInput_def)

theorem user_turn_guard_witness:
  "isWaitingForResponse (gameState (run (mount initial) typed_when_timer_fires)) \<and>
   userInput (run (mount initial) typed_when_timer_fires) = str ''look'' \<and>
   trim (str ''look'') \<noteq> [] \<and>
   handleUserInput (run (mount initial) typed_when_timer_fires) =
     run (mount initial) typed_when_timer_fires \<and>
   step (run (mount initial) typed_when_timer_fires) SubmitInput =
     run (mount initial) typed_when_timer_fires \<and>
   isWaitingForResponse
     (gameState (initial\<lparr>gameState := initialGameState
                   \<lparr>gameStarted := True, isWaitingForResponse := True,
                    currentChoices := recovery_choices\<rparr>\<rparr>)) \<and>
   0 < length recovery_choices \<and>
   step
     (initial\<lparr>gameState := initialGameState
                \<lparr>gameStarted := True, isWaitingForResponse := True,
                 currentChoices := recovery_choices\<rparr>\<rparr>) (ClickChoice 0 None) =
     initial\<lparr>gameState := initialGameState
               \<lparr>gameStarted := True, isWaitingForResponse := True,
                currentChoices := recovery_choices\<rparr>\<rparr>"
proof -
  let ?r = "run (mount initial) typed_when_timer_fires"
  let ?s = "initial\<lparr>gameState := initialGameState
               \<lparr>gameStarted := True, isWaitingForResponse := True,
                currentChoices := recovery_choices\<rparr>\<rparr>"
  have w: "isWaitingForResponse (gameState ?r)"
    by (simp add: run_def typed_when_timer_fires_def mount_def getApiKeyStatus_invalid_def
        initial_def initialGameState_def startGame_def generateStoryResponse_def
        addMessage_def setGameState_def Let_def trim_def is_js_ws_def str_def settle_def
        continue_task_def)
  have u: "userInput ?r = str ''look''"
    by (simp add: run_def typed_when_timer_fires_def mount_def getApiKeyStatus_invalid_def
        initial_def initialGameState_def startGame_def generateStoryResponse_def
        addMessage_def setGameState_def Let_def trim_def is_js_ws_def str_def settle_def
        continue_task_def)
  have t: "trim (str ''look'') \<noteq> []"
    by (simp add: trim_def is_js_ws_def str_def)
  have w': "isWaitingForResponse (gameState ?s)" by simp
  have c: "0 < length recovery_choices"
    by (simp add: recovery_choices_def)
  from user_turn_guard [OF w] have a: "handleUserInput ?r = ?r" "step ?r SubmitInput = ?r"
    by blast+
  from user_turn_guard [OF w'] have b: "step ?s (ClickChoice 0 None) = ?s"
    by blast
  show ?thesis
    by (intro conjI) (rule w, rule u, rule t, rule a(1), rule a(2), rule w', rule c, rule b)
qed

end
